theory Spec2Isabelle
  imports Main
begin

section \<open>Python values, strings and exceptions\<close>

text \<open>
  Values that reach the tools from outside (the keyword arguments the model supplies, the
  entries of a lesson object) are dynamically typed. The embedding keeps the three shapes
  the tool schemas mention: \<open>None\<close>, integers and strings. Strings are byte strings.
\<close>

datatype pyval = PNone | PInt int | PStr string

text \<open>Python truthiness: \<open>if v:\<close>.\<close>

fun truthy :: "pyval \<Rightarrow> bool" where
  "truthy PNone = False"
| "truthy (PInt i) = (i \<noteq> 0)"
| "truthy (PStr s) = (s \<noteq> [])"

definition digit_char :: "nat \<Rightarrow> char" where
  "digit_char d = ''0123456789'' ! d"

function str_nat :: "nat \<Rightarrow> string" where
  "str_nat n = (if n < 10 then [digit_char n] else str_nat (n div 10) @ [digit_char (n mod 10)])"
  by pat_completeness auto
termination
  by (relation "measure (\<lambda>n. n)") auto

declare str_nat.simps [simp del]

text \<open>\<open>str(i)\<close> for an integer: decimal digits, with a leading minus sign.\<close>

definition str_int :: "int \<Rightarrow> string" where
  "str_int i = (if i < 0 then CHR ''-'' # str_nat (nat (- i)) else str_nat (nat i))"

text \<open>What an f-string field \<open>{v}\<close> renders.\<close>

fun py_str :: "pyval \<Rightarrow> string" where
  "py_str PNone = ''None''"
| "py_str (PInt i) = str_int i"
| "py_str (PStr s) = s"

text \<open>A string between apostrophes, as \<open>f"'{s}'"\<close> renders it.\<close>

definition quoted :: "string \<Rightarrow> string" where
  "quoted s = CHR 0x27 # s @ [CHR 0x27]"

text \<open>\<open>sep.join(xs)\<close>.\<close>

fun join :: "string \<Rightarrow> string list \<Rightarrow> string" where
  "join sep [] = []"
| "join sep [x] = x"
| "join sep (x # y # ys) = x @ sep @ join sep (y # ys)"

text \<open>An ASCII capital letter becomes its small letter; any other byte stays.\<close>

definition char_lower :: "char \<Rightarrow> char" where
  "char_lower c =
     (let n = (of_char c :: nat) in if 65 \<le> n \<and> n \<le> 90 then char_of (n + 32) else c)"

text \<open>
  \<open>str.lower()\<close>, on the UTF-8 bytes of the string. Besides the ASCII capitals, exactly two
  code points have an ASCII letter in their lower-case form: U+212A KELVIN SIGN (bytes
  \<open>E2 84 AA\<close>), which becomes \<open>k\<close>, and U+0130 (bytes \<open>C4 B0\<close>), which becomes \<open>i\<close>
  followed by U+0307 (bytes \<open>CC 87\<close>). Both are folded here. Every other code point is left
  as it is; its lower-case form holds no ASCII character either, so a test for an ASCII
  substring of the result sees what Python sees.
\<close>

fun lower :: "string \<Rightarrow> string" where
  "lower (a # b # c # cs) =
     (if a = CHR 0xE2 \<and> b = CHR 0x84 \<and> c = CHR 0xAA then CHR ''k'' # lower cs
      else if a = CHR 0xC4 \<and> b = CHR 0xB0
      then CHR ''i'' # CHR 0xCC # CHR 0x87 # lower (c # cs)
      else char_lower a # lower (b # c # cs))"
| "lower [a, b] =
     (if a = CHR 0xC4 \<and> b = CHR 0xB0 then [CHR ''i'', CHR 0xCC, CHR 0x87]
      else [char_lower a, char_lower b])"
| "lower [a] = [char_lower a]"
| "lower [] = []"

fun startswith :: "string \<Rightarrow> string \<Rightarrow> bool" where
  "startswith s [] = True"
| "startswith [] (p # ps) = False"
| "startswith (c # cs) (p # ps) = (c = p \<and> startswith cs ps)"

text \<open>\<open>sub in s\<close> for strings.\<close>

fun str_contains :: "string \<Rightarrow> string \<Rightarrow> bool" where
  "str_contains sub [] = (sub = [])"
| "str_contains sub (c # cs) = (startswith (c # cs) sub \<or> str_contains sub cs)"

text \<open>
  An exception is its class together with \<open>str(e)\<close>. \<open>Exception\<close> stands for whatever a
  collaborator raises; the other classes are the ones the interpreter raises in the code
  modelled here.
\<close>

datatype exn =
    Exception string
  | TypeError string
  | ValueError string
  | IndexError string
  | AttributeError string
  | UnboundLocalError string

fun exc_str :: "exn \<Rightarrow> string" where
  "exc_str (Exception m) = m"
| "exc_str (TypeError m) = m"
| "exc_str (ValueError m) = m"
| "exc_str (IndexError m) = m"
| "exc_str (AttributeError m) = m"
| "exc_str (UnboundLocalError m) = m"

text \<open>Keyword arguments, in the order of the dictionary; a name occurs once.\<close>

type_synonym kwargs = "(string \<times> pyval) list"

text \<open>\<open>d.get(k, default)\<close> on a keyword dictionary.\<close>

definition kw_get :: "kwargs \<Rightarrow> string \<Rightarrow> pyval \<Rightarrow> pyval" where
  "kw_get kw k d = (case map_of kw k of None \<Rightarrow> d | Some v \<Rightarrow> v)"

section \<open>The document store and the data the tools exchange with it\<close>

record citation =
  display_text :: string
  lesson_link :: "string option"

text \<open>
  The metadata of one search hit. For the course title \<open>None\<close> is an absent key; for the
  lesson number it is an absent key or a stored \<open>None\<close>.
\<close>

record hit_meta =
  hm_course_title :: "string option"
  hm_lesson_number :: "int option"

record search_results =
  documents :: "string list"
  metadata :: "hit_meta list"
  error :: "string option"

text \<open>
  Modelled from the spec: \<open>SearchResults.is_empty\<close> lives in \<open>vector_store.py\<close>, which is
  not among the sources; the spec speaks of an empty result set (zero hits), and the tests
  build the empty result from an empty document list.
\<close>

definition is_empty :: "search_results \<Rightarrow> bool" where
  "is_empty r = (documents r = [])"

text \<open>
  What \<open>json.loads\<close> returns: \<open>None\<close>, a truth value, a number (integers only here),
  a string, a list or a dictionary (a key occurs once).
\<close>

datatype json =
    JNull
  | JBool bool
  | JInt int
  | JStr string
  | JList "json list"
  | JDict "(string \<times> json) list"

fun json_truthy :: "json \<Rightarrow> bool" where
  "json_truthy JNull = False"
| "json_truthy (JBool b) = b"
| "json_truthy (JInt i) = (i \<noteq> 0)"
| "json_truthy (JStr s) = (s \<noteq> [])"
| "json_truthy (JList xs) = (xs \<noteq> [])"
| "json_truthy (JDict d) = (d \<noteq> [])"

text \<open>\<open>type(v).__name__\<close>, as error messages print it.\<close>

fun type_name :: "json \<Rightarrow> string" where
  "type_name JNull = ''NoneType''"
| "type_name (JBool b) = ''bool''"
| "type_name (JInt i) = ''int''"
| "type_name (JStr s) = ''str''"
| "type_name (JList xs) = ''list''"
| "type_name (JDict d) = ''dict''"

text \<open>\<open>d.get(k, default)\<close> on a decoded dictionary.\<close>

definition json_get :: "(string \<times> json) list \<Rightarrow> string \<Rightarrow> json \<Rightarrow> json" where
  "json_get d k dflt = (case map_of d k of None \<Rightarrow> dflt | Some v \<Rightarrow> v)"

text \<open>
  \<open>for x in v\<close>: the elements of a list, the keys of a dictionary, the characters of a
  string (one string for each byte here); anything else is not iterable.
\<close>

fun iterate :: "json \<Rightarrow> exn + json list" where
  "iterate (JList xs) = Inr xs"
| "iterate (JDict d) = Inr (map (\<lambda>(k, v). JStr k) d)"
| "iterate (JStr s) = Inr (map (\<lambda>c. JStr [c]) s)"
| "iterate v = Inl (TypeError (quoted (type_name v) @ '' object is not iterable''))"

text \<open>The catalog metadata of a course: \<open>None\<close> is an absent key.\<close>

record course_metadata =
  md_title :: "string option"
  md_course_link :: "string option"
  md_instructor :: "string option"
  md_lessons_json :: "string option"

text \<open>
  The vector store is a collaborator: every call takes the store's state and returns an
  outcome (\<open>Inl\<close> an exception) with the state after the call. \<open>catalog_get\<close> is
  \<open>course_catalog.get(ids=[t])\<close>: \<open>None\<close> is a falsy result, \<open>Some ms\<close> a result whose
  \<open>"metadatas"\<close> entry is \<open>ms\<close>.

  Two functions of the Python library come with it. \<open>json_loads\<close> is \<open>json.loads\<close> on a
  string: \<open>None\<close> is \<open>JSONDecodeError\<close>. \<open>container_str\<close> is \<open>str\<close> on a list or a
  dictionary, which prints the \<open>repr\<close> of its elements.
\<close>

record 'v store =
  search :: "'v \<Rightarrow> pyval \<Rightarrow> pyval \<Rightarrow> pyval \<Rightarrow> (exn + search_results) \<times> 'v"
  get_lesson_link :: "'v \<Rightarrow> string \<Rightarrow> int \<Rightarrow> (exn + string option) \<times> 'v"
  resolve_course_name :: "'v \<Rightarrow> pyval \<Rightarrow> (exn + string option) \<times> 'v"
  catalog_get :: "'v \<Rightarrow> string \<Rightarrow> (exn + course_metadata list option) \<times> 'v"
  json_loads :: "string \<Rightarrow> json option"
  container_str :: "json \<Rightarrow> string"

section \<open>search\_tools.py: the tools\<close>

text \<open>
  A tool object is its class and its \<open>last_sources\<close> attribute; the store it refers to is
  passed along.
\<close>

datatype tool = CourseSearchTool "citation list" | CourseOutlineTool "citation list"

fun last_sources :: "tool \<Rightarrow> citation list" where
  "last_sources (CourseSearchTool ls) = ls"
| "last_sources (CourseOutlineTool ls) = ls"

text \<open>\<open>hasattr(tool, "last_sources")\<close>: both classes set the attribute in \<open>__init__\<close>.\<close>

fun has_last_sources :: "tool \<Rightarrow> bool" where
  "has_last_sources (CourseSearchTool ls) = True"
| "has_last_sources (CourseOutlineTool ls) = True"

fun set_last_sources :: "tool \<Rightarrow> citation list \<Rightarrow> tool" where
  "set_last_sources (CourseSearchTool _) ls = CourseSearchTool ls"
| "set_last_sources (CourseOutlineTool _) ls = CourseOutlineTool ls"

record tool_definition =
  def_name :: string
  def_description :: string
  def_properties :: "(string \<times> string \<times> string) list"
  def_required :: "string list"

fun get_tool_definition :: "tool \<Rightarrow> tool_definition" where
  "get_tool_definition (CourseSearchTool _) =
     \<lparr>def_name = ''search_course_content'',
      def_description =
        ''Search course materials with smart course name matching and lesson filtering'',
      def_properties =
        [(''query'', ''string'', ''What to search for in the course content''),
         (''course_name'', ''string'',
          ''Course title (partial matches work, e.g. '' @ quoted ''MCP'' @ '', ''
            @ quoted ''Introduction'' @ '')''),
         (''lesson_number'', ''integer'',
          ''Specific lesson number to search within (e.g. 1, 2, 3)'')],
      def_required = [''query'']\<rparr>"
| "get_tool_definition (CourseOutlineTool _) =
     \<lparr>def_name = ''get_course_outline'',
      def_description =
        ''Get course outline including title, link, and complete lesson list'',
      def_properties =
        [(''course_name'', ''string'',
          ''Course title (partial matches work, e.g. '' @ quoted ''MCP'' @ '', ''
            @ quoted ''Introduction'' @ '')'')],
      def_required = [''course_name'']\<rparr>"

subsection \<open>CourseSearchTool\<close>

text \<open>The header and the citation text of one hit (\<open>_format_results\<close>, loop body).\<close>

definition hit_title :: "hit_meta \<Rightarrow> string" where
  "hit_title meta = (case hm_course_title meta of None \<Rightarrow> ''unknown'' | Some t \<Rightarrow> t)"

definition lesson_suffix :: "hit_meta \<Rightarrow> string" where
  "lesson_suffix meta =
     (case hm_lesson_number meta of None \<Rightarrow> [] | Some n \<Rightarrow> '' - Lesson '' @ str_int n)"

text \<open>
  The loop of \<open>_format_results\<close> over \<open>zip(results.documents, results.metadata)\<close>: the
  formatted passages and the citations, or the exception of a failed link lookup.
\<close>

fun format_hits ::
  "'v store \<Rightarrow> 'v \<Rightarrow> (string \<times> hit_meta) list \<Rightarrow> (exn + string list \<times> citation list) \<times> 'v"
where
  "format_hits S v [] = (Inr ([], []), v)"
| "format_hits S v ((doc, meta) # rest) =
     (let course_title = hit_title meta;
          lesson_num = hm_lesson_number meta;
          header = ''['' @ course_title @ lesson_suffix meta @ '']'';
          source_display = course_title @ lesson_suffix meta
      in case (case lesson_num of
                 None \<Rightarrow> (Inr None, v)
               | Some n \<Rightarrow>
                   if course_title \<noteq> ''unknown'' then get_lesson_link S v course_title n
                   else (Inr None, v)) of
           (Inl e, v') \<Rightarrow> (Inl e, v')
         | (Inr link, v') \<Rightarrow>
             (case format_hits S v' rest of
                (Inl e, v'') \<Rightarrow> (Inl e, v'')
              | (Inr (formatted, sources), v'') \<Rightarrow>
                  (Inr ((header @ ''\<newline>'' @ doc) # formatted,
                        \<lparr>display_text = source_display, lesson_link = link\<rparr> # sources),
                   v'')))"

text \<open>\<open>_format_results\<close>: \<open>last_sources\<close> is assigned only when the loop has finished.\<close>

definition format_results ::
  "'v store \<Rightarrow> citation list \<Rightarrow> 'v \<Rightarrow> search_results \<Rightarrow> (exn + string) \<times> citation list \<times> 'v"
where
  "format_results S ls v results =
     (case format_hits S v (zip (documents results) (metadata results)) of
        (Inl e, v') \<Rightarrow> (Inl e, ls, v')
      | (Inr (formatted, sources), v') \<Rightarrow>
          (Inr (join ''\<newline>\<newline>'' formatted), sources, v'))"

text \<open>
  \<open>CourseSearchTool.execute(query, course_name=None, lesson_number=None)\<close>, on the tool's
  \<open>last_sources\<close> \<open>ls\<close>. The filters are tested for truthiness.
\<close>

definition filter_info :: "pyval \<Rightarrow> pyval \<Rightarrow> string" where
  "filter_info course_name lesson_number =
     (if truthy course_name then '' in course '' @ quoted (py_str course_name) else []) @
     (if truthy lesson_number then '' in lesson '' @ py_str lesson_number else [])"

definition search_execute ::
  "'v store \<Rightarrow> citation list \<Rightarrow> 'v \<Rightarrow> pyval \<Rightarrow> pyval \<Rightarrow> pyval
     \<Rightarrow> (exn + string) \<times> citation list \<times> 'v"
where
  "search_execute S ls v query course_name lesson_number =
     (case search S v query course_name lesson_number of
        (Inl e, v') \<Rightarrow> (Inl e, ls, v')
      | (Inr results, v') \<Rightarrow>
          (case error results of
             Some (c # cs) \<Rightarrow> (Inr (c # cs), ls, v')
           | _ \<Rightarrow>
               if is_empty results
               then (Inr (''No relevant content found''
                          @ filter_info course_name lesson_number @ ''.''), ls, v')
               else format_results S ls v' results))"

subsection \<open>CourseOutlineTool\<close>

definition opt_default :: "'a option \<Rightarrow> 'a \<Rightarrow> 'a" where
  "opt_default x d = (case x of None \<Rightarrow> d | Some y \<Rightarrow> y)"

text \<open>What an f-string field \<open>{v}\<close> renders for a decoded value.\<close>

fun json_str :: "'v store \<Rightarrow> json \<Rightarrow> string" where
  "json_str S JNull = ''None''"
| "json_str S (JBool b) = (if b then ''True'' else ''False'')"
| "json_str S (JInt i) = str_int i"
| "json_str S (JStr s) = s"
| "json_str S v = container_str S v"

text \<open>
  The loop \<open>for lesson in lessons\<close> of \<open>_format_outline\<close> with the list \<open>outline\<close> built so
  far: \<open>lesson.get\<close> raises \<open>AttributeError\<close> on anything but a dictionary.
\<close>

fun lesson_lines :: "'v store \<Rightarrow> json list \<Rightarrow> string list \<Rightarrow> exn + string list" where
  "lesson_lines S [] outline = Inr outline"
| "lesson_lines S (lesson # rest) outline =
     (case lesson of
        JDict d \<Rightarrow>
          (let lesson_num = json_get d ''lesson_number'' (JStr []);
               lesson_title = json_get d ''lesson_title'' (JStr [])
           in lesson_lines S rest
                (outline @ [''  Lesson '' @ json_str S lesson_num @ '': ''
                              @ json_str S lesson_title]))
      | _ \<Rightarrow>
          Inl (AttributeError
                 (quoted (type_name lesson) @ '' object has no attribute '' @ quoted ''get'')))"

text \<open>
  \<open>_format_outline\<close>: the rendered outline and the new \<open>last_sources\<close>, or the exception
  that leaves the method before \<open>last_sources\<close> is assigned.
\<close>

definition format_outline ::
  "'v store \<Rightarrow> course_metadata \<Rightarrow> exn + string \<times> citation list"
where
  "format_outline S md =
     (let title = opt_default (md_title md) ''Unknown Course'';
          course_link = opt_default (md_course_link md) [];
          instructor = opt_default (md_instructor md) [];
          lessons_json = opt_default (md_lessons_json md) ''[]'';
          lessons = (case json_loads S lessons_json of None \<Rightarrow> JList [] | Some j \<Rightarrow> j);
          outline =
            [''Course: '' @ title]
            @ (if instructor \<noteq> [] then [''Instructor: '' @ instructor] else [])
            @ (if course_link \<noteq> [] then [''Course Link: '' @ course_link] else [])
      in case (if json_truthy lessons
               then (case iterate lessons of
                       Inl e \<Rightarrow> Inl e
                     | Inr xs \<Rightarrow> lesson_lines S xs (outline @ [''\<newline>Lessons:'']))
               else Inr (outline @ [''\<newline>No lessons found''])) of
           Inl e \<Rightarrow> Inl e
         | Inr outline' \<Rightarrow>
             Inr (join ''\<newline>'' outline',
                  [\<lparr>display_text = title @ '' - Course Outline'',
                    lesson_link = Some course_link\<rparr>]))"

text \<open>
  \<open>CourseOutlineTool.execute(course_name)\<close>. The resolver is called outside the
  \<open>try\<close>; whatever the catalog lookup or \<open>_format_outline\<close> raises is turned into a
  string.
\<close>

definition outline_execute ::
  "'v store \<Rightarrow> citation list \<Rightarrow> 'v \<Rightarrow> pyval \<Rightarrow> (exn + string) \<times> citation list \<times> 'v"
where
  "outline_execute S ls v course_name =
     (case resolve_course_name S v course_name of
        (Inl e, v') \<Rightarrow> (Inl e, ls, v')
      | (Inr None, v') \<Rightarrow>
          (Inr (''No course found matching '' @ quoted (py_str course_name)), ls, v')
      | (Inr (Some []), v') \<Rightarrow>
          (Inr (''No course found matching '' @ quoted (py_str course_name)), ls, v')
      | (Inr (Some (c # cs)), v') \<Rightarrow>
          (let course_title = c # cs in
           case catalog_get S v' course_title of
             (Inl e, v'') \<Rightarrow> (Inr (''Error retrieving course outline: '' @ exc_str e), ls, v'')
           | (Inr None, v'') \<Rightarrow>
               (Inr (''Course metadata not found for '' @ quoted course_title), ls, v'')
           | (Inr (Some []), v'') \<Rightarrow>
               (Inr (''Course metadata not found for '' @ quoted course_title), ls, v'')
           | (Inr (Some (md # _)), v'') \<Rightarrow>
               (case format_outline S md of
                  Inl e \<Rightarrow>
                    (Inr (''Error retrieving course outline: '' @ exc_str e), ls, v'')
                | Inr (text, sources) \<Rightarrow> (Inr text, sources, v''))))"

subsection \<open>Calling a tool with keyword arguments\<close>

text \<open>
  \<open>tool.execute(**kwargs)\<close>: the interpreter binds the keywords, in their order, to the
  parameters of the class's \<open>execute\<close>. The first keyword that is not a parameter raises
  \<open>TypeError\<close> (the keyword \<open>self\<close> because that parameter is bound already); when all
  keywords are bound, a missing required parameter raises \<open>TypeError\<close>. The messages are
  worded as CPython 3.10 and later word them.
\<close>

definition unexpected_keyword :: "string list \<Rightarrow> kwargs \<Rightarrow> string option" where
  "unexpected_keyword params kw =
     (case filter (\<lambda>k. k \<notin> set params) (map fst kw) of [] \<Rightarrow> None | k # _ \<Rightarrow> Some k)"

definition keyword_error :: "string \<Rightarrow> string list \<Rightarrow> string \<Rightarrow> exn" where
  "keyword_error f bound k =
     TypeError (f @ (if k \<in> set bound
                     then ''() got multiple values for argument ''
                     else ''() got an unexpected keyword argument '') @ quoted k)"

definition missing_argument :: "string \<Rightarrow> string \<Rightarrow> exn" where
  "missing_argument f k =
     TypeError (f @ ''() missing 1 required positional argument: '' @ quoted k)"

fun tool_execute ::
  "'v store \<Rightarrow> tool \<Rightarrow> 'v \<Rightarrow> kwargs \<Rightarrow> (exn + string) \<times> tool \<times> 'v"
where
  "tool_execute S (CourseSearchTool ls) v kw =
     (case unexpected_keyword [''query'', ''course_name'', ''lesson_number''] kw of
        Some k \<Rightarrow>
          (Inl (keyword_error ''CourseSearchTool.execute'' [''self''] k),
           CourseSearchTool ls, v)
      | None \<Rightarrow>
          (case map_of kw ''query'' of
             None \<Rightarrow>
               (Inl (missing_argument ''CourseSearchTool.execute'' ''query''),
                CourseSearchTool ls, v)
           | Some query \<Rightarrow>
               (case search_execute S ls v query
                       (kw_get kw ''course_name'' PNone) (kw_get kw ''lesson_number'' PNone) of
                  (res, ls', v') \<Rightarrow> (res, CourseSearchTool ls', v'))))"
| "tool_execute S (CourseOutlineTool ls) v kw =
     (case unexpected_keyword [''course_name''] kw of
        Some k \<Rightarrow>
          (Inl (keyword_error ''CourseOutlineTool.execute'' [''self''] k),
           CourseOutlineTool ls, v)
      | None \<Rightarrow>
          (case map_of kw ''course_name'' of
             None \<Rightarrow>
               (Inl (missing_argument ''CourseOutlineTool.execute'' ''course_name''),
                CourseOutlineTool ls, v)
           | Some course_name \<Rightarrow>
               (case outline_execute S ls v course_name of
                  (res, ls', v') \<Rightarrow> (res, CourseOutlineTool ls', v'))))"

section \<open>search\_tools.py: ToolManager\<close>

text \<open>
  \<open>self.tools\<close> is a dictionary, kept in insertion order; \<open>self.session\_sources\<close> the
  citation log of the session.
\<close>

record tool_manager =
  tools :: "(string \<times> tool) list"
  session_sources :: "citation list"

definition new_tool_manager :: tool_manager where
  "new_tool_manager = \<lparr>tools = [], session_sources = []\<rparr>"

text \<open>\<open>d[k] = v\<close>: an existing key keeps its place, a new key goes last.\<close>

fun dict_set :: "(string \<times> 'a) list \<Rightarrow> string \<Rightarrow> 'a \<Rightarrow> (string \<times> 'a) list" where
  "dict_set [] k v = [(k, v)]"
| "dict_set ((k', v') # d) k v = (if k' = k then (k, v) # d else (k', v') # dict_set d k v)"

definition register_tool :: "tool_manager \<Rightarrow> tool \<Rightarrow> exn + tool_manager" where
  "register_tool m t =
     (let tool_name = def_name (get_tool_definition t) in
      if tool_name = []
      then Inl (ValueError (''Tool must have a '' @ quoted ''name'' @ '' in its definition''))
      else Inr (m\<lparr>tools := dict_set (tools m) tool_name t\<rparr>))"

definition get_tool_definitions :: "tool_manager \<Rightarrow> tool_definition list" where
  "get_tool_definitions m = map (\<lambda>(k, t). get_tool_definition t) (tools m)"

text \<open>
  The call \<open>execute_tool(tool_name, **kwargs)\<close> binds \<open>self\<close> and \<open>tool_name\<close> by
  position and collects every other keyword in \<open>kwargs\<close>: the first keyword named \<open>self\<close>
  or \<open>tool_name\<close> raises \<open>TypeError\<close> before the body runs.
\<close>

definition bound_twice :: "kwargs \<Rightarrow> string option" where
  "bound_twice kw =
     (case filter (\<lambda>k. k = ''self'' \<or> k = ''tool_name'') (map fst kw) of
        [] \<Rightarrow> None
      | k # _ \<Rightarrow> Some k)"

text \<open>
  \<open>execute_tool(tool_name, **kwargs)\<close>. The tool's \<open>last_sources\<close> is read after the tool
  has run; an exception of the tool leaves the method before the log is extended.
\<close>

definition execute_tool ::
  "'v store \<Rightarrow> tool_manager \<times> 'v \<Rightarrow> string \<Rightarrow> kwargs \<Rightarrow> (exn + string) \<times> tool_manager \<times> 'v"
where
  "execute_tool S mv tool_name kw =
     (case mv of (m, v) \<Rightarrow>
        (case bound_twice kw of
           Some k \<Rightarrow>
             (Inl (keyword_error ''ToolManager.execute_tool'' [''self'', ''tool_name''] k), m, v)
         | None \<Rightarrow>
             (case map_of (tools m) tool_name of
                None \<Rightarrow> (Inr (''Tool '' @ quoted tool_name @ '' not found''), m, v)
              | Some t \<Rightarrow>
                  (case tool_execute S t v kw of
                     (Inl e, t', v') \<Rightarrow>
                       (Inl e, m\<lparr>tools := dict_set (tools m) tool_name t'\<rparr>, v')
                   | (Inr result, t', v') \<Rightarrow>
                       (let m' = m\<lparr>tools := dict_set (tools m) tool_name t'\<rparr> in
                        (Inr result,
                         (if has_last_sources t'
                          then m'\<lparr>session_sources := session_sources m' @ last_sources t'\<rparr>
                          else m'),
                         v'))))))"

text \<open>\<open>get_last_sources\<close>: the first tool, in dictionary order, with a non-empty list.\<close>

fun first_sources :: "tool list \<Rightarrow> citation list" where
  "first_sources [] = []"
| "first_sources (t # ts) =
     (if has_last_sources t \<and> last_sources t \<noteq> [] then last_sources t else first_sources ts)"

definition get_last_sources :: "tool_manager \<Rightarrow> citation list" where
  "get_last_sources m = first_sources (map snd (tools m))"

definition get_all_sources_from_session :: "tool_manager \<Rightarrow> citation list" where
  "get_all_sources_from_session m = session_sources m"

definition reset_sources :: "tool_manager \<Rightarrow> tool_manager" where
  "reset_sources m =
     m\<lparr>session_sources := [],
       tools := map (\<lambda>(k, t). (k, if has_last_sources t then set_last_sources t [] else t))
                  (tools m)\<rparr>"

section \<open>ai\_generator.py: AIGenerator\<close>

subsection \<open>Requests, responses and the round state\<close>

datatype content_block =
    TextBlock string
  | ToolUseBlock string string kwargs  \<comment> \<open>\<open>id\<close>, \<open>name\<close>, \<open>input\<close>\<close>

record response =
  content :: "content_block list"
  stop_reason :: string

record tool_result =
  tr_type :: string
  tr_tool_use_id :: string
  tr_content :: string

datatype message_content =
    Text string
  | Blocks "content_block list"
  | ToolResults "tool_result list"

record message =
  role :: string
  msg_content :: message_content

text \<open>The keyword arguments of \<open>client.messages.create\<close>: \<open>None\<close> is an absent key.\<close>

record api_params =
  p_model :: string
  p_temperature :: nat
  p_max_tokens :: nat
  p_messages :: "message list"
  p_system :: string
  p_tools :: "tool_definition list option"
  p_tool_choice :: "string option"

text \<open>
  The generator object: \<open>self.model\<close> and the class constant \<open>SYSTEM_PROMPT\<close>, whose text
  plays no part in the control flow.
\<close>

record ai_generator =
  model :: string
  SYSTEM_PROMPT :: string

text \<open>
  What a run does to the outside world, in order: the calls of \<open>_api_call_with_retry\<close>
  made by the round loop and by the final synthesis, the calls of
  \<open>client.messages.create\<close>, the calls of \<open>time.sleep\<close>, the calls of
  \<open>_execute_tools_for_round\<close> and the calls of \<open>tool_manager.execute_tool\<close> with their
  outcome.
\<close>

datatype event =
    RoundRequest api_params
  | FinalRequest api_params
  | Create api_params
  | Sleep nat
  | Batch
  | ExecuteTool string kwargs "exn + string"

text \<open>
  The model client and the tool executor are collaborators with a state of their own:
  a call returns a response or a result (\<open>Inl\<close> an exception) and the state after it.
\<close>

type_synonym 'c create = "'c \<Rightarrow> api_params \<Rightarrow> (exn + response) \<times> 'c"

type_synonym 't executor = "'t \<Rightarrow> string \<Rightarrow> kwargs \<Rightarrow> (exn + string) \<times> 't"

subsection \<open>\_api\_call\_with\_retry\<close>

definition api_transient :: "exn \<Rightarrow> bool" where
  "api_transient e =
     (let error_msg = lower (exc_str e) in
      str_contains ''rate limit'' error_msg \<or> str_contains ''network'' error_msg
        \<or> str_contains ''connection'' error_msg)"

text \<open>
  The loop \<open>for attempt in range(max_retries + 1)\<close> over the attempts still to make.
  Leaving the loop without a \<open>return\<close> makes the method return \<open>None\<close>.
\<close>

fun retry_loop ::
  "'c create \<Rightarrow> api_params \<Rightarrow> int \<Rightarrow> int list \<Rightarrow> 'c
     \<Rightarrow> (exn + response option) \<times> 'c \<times> event list"
where
  "retry_loop create api_params max_retries [] c = (Inr None, c, [])"
| "retry_loop create api_params max_retries (attempt # rest) c =
     (case create c api_params of
        (Inr r, c') \<Rightarrow> (Inr (Some r), c', [Create api_params])
      | (Inl e, c') \<Rightarrow>
          if attempt = max_retries then (Inl e, c', [Create api_params])
          else if api_transient e
          then (case retry_loop create api_params max_retries rest c' of
                  (res, c'', evs) \<Rightarrow>
                    (res, c'', Create api_params # Sleep (2 ^ nat attempt) # evs))
          else (Inl e, c', [Create api_params]))"

definition api_call_with_retry ::
  "'c create \<Rightarrow> api_params \<Rightarrow> int \<Rightarrow> 'c \<Rightarrow> (exn + response option) \<times> 'c \<times> event list"
where
  "api_call_with_retry create api_params max_retries c =
     retry_loop create api_params max_retries [0..max_retries] c"

subsection \<open>\_execute\_tools\_for\_round\<close>

definition tool_transient :: "exn \<Rightarrow> bool" where
  "tool_transient e =
     (let error_msg = exc_str e in
      str_contains ''rate limit'' (lower error_msg) \<or> str_contains ''network'' (lower error_msg))"

text \<open>
  The loop over \<open>response.content\<close> with the list \<open>tool_results\<close> built so far. A
  transient error returns \<open>None\<close> at once; at the end an empty list becomes \<open>None\<close>.
\<close>

fun tools_loop ::
  "'t executor \<Rightarrow> content_block list \<Rightarrow> tool_result list \<Rightarrow> 't
     \<Rightarrow> tool_result list option \<times> 't \<times> event list"
where
  "tools_loop exec [] tool_results t =
     ((if tool_results \<noteq> [] then Some tool_results else None), t, [])"
| "tools_loop exec (TextBlock txt # rest) tool_results t = tools_loop exec rest tool_results t"
| "tools_loop exec (ToolUseBlock i n inp # rest) tool_results t =
     (case exec t n inp of
        (Inr tool_result, t') \<Rightarrow>
          (case tools_loop exec rest
                  (tool_results @
                     [\<lparr>tr_type = ''tool_result'', tr_tool_use_id = i, tr_content = tool_result\<rparr>])
                  t' of
             (res, t'', evs) \<Rightarrow> (res, t'', ExecuteTool n inp (Inr tool_result) # evs))
      | (Inl e, t') \<Rightarrow>
          if tool_transient e then (None, t', [ExecuteTool n inp (Inl e)])
          else
            (case tools_loop exec rest
                    (tool_results @
                       [\<lparr>tr_type = ''tool_result'', tr_tool_use_id = i,
                         tr_content = ''Tool execution failed: '' @ exc_str e\<rparr>])
                    t' of
               (res, t'', evs) \<Rightarrow> (res, t'', ExecuteTool n inp (Inl e) # evs)))"

definition execute_tools_for_round ::
  "'t executor \<Rightarrow> response \<Rightarrow> 't \<Rightarrow> tool_result list option \<times> 't \<times> event list"
where
  "execute_tools_for_round exec resp t = tools_loop exec (content resp) [] t"

subsection \<open>generate\_response\<close>

text \<open>
  The local state of \<open>generate_response\<close>: the message list, the variable \<open>response\<close>
  (unbound before the first round), the collaborators and what has been done so far.
\<close>

record ('c, 't) rstate =
  st_messages :: "message list"
  st_response :: "response option"
  st_client :: 'c
  st_tool_manager :: "'t option"
  st_trace :: "event list"

datatype 'a flow = Continue 'a | Break 'a | Raise exn 'a

text \<open>\<open>xs[0].text\<close> on a content list.\<close>

fun first_text :: "content_block list \<Rightarrow> exn + string" where
  "first_text [] = Inl (IndexError ''list index out of range'')"
| "first_text (TextBlock txt # _) = Inr txt"
| "first_text (ToolUseBlock i n inp # _) =
     Inl (AttributeError (quoted ''ToolUseBlock'' @ '' object has no attribute '' @ quoted ''text''))"

definition none_has_no_content :: exn where
  "none_has_no_content =
     AttributeError (quoted ''NoneType'' @ '' object has no attribute '' @ quoted ''content'')"

definition round_params ::
  "ai_generator \<Rightarrow> message list \<Rightarrow> string \<Rightarrow> tool_definition list option \<Rightarrow> api_params"
where
  "round_params G messages system_content tool_defs =
     (case tool_defs of
        Some (d # ds) \<Rightarrow>
          \<lparr>p_model = model G, p_temperature = 0, p_max_tokens = 800, p_messages = messages,
           p_system = system_content, p_tools = Some (d # ds), p_tool_choice = Some ''auto''\<rparr>
      | _ \<Rightarrow>
          \<lparr>p_model = model G, p_temperature = 0, p_max_tokens = 800, p_messages = messages,
           p_system = system_content, p_tools = None, p_tool_choice = None\<rparr>)"

definition final_params :: "ai_generator \<Rightarrow> message list \<Rightarrow> string \<Rightarrow> api_params" where
  "final_params G messages system_content =
     \<lparr>p_model = model G, p_temperature = 0, p_max_tokens = 800, p_messages = messages,
      p_system = system_content, p_tools = None, p_tool_choice = None\<rparr>"

text \<open>One pass through the body of \<open>for round_num in range(max_rounds)\<close>.\<close>

definition round_body ::
  "ai_generator \<Rightarrow> 'c create \<Rightarrow> 't executor \<Rightarrow> string \<Rightarrow> tool_definition list option
     \<Rightarrow> ('c, 't) rstate \<Rightarrow> ('c, 't) rstate flow"
where
  "round_body G create exec system_content tool_defs st =
     (let api_params = round_params G (st_messages st) system_content tool_defs in
      case api_call_with_retry create api_params 2 (st_client st) of
        (res, c', evs) \<Rightarrow>
          (let st1 = st\<lparr>st_client := c',
                        st_trace := st_trace st @ RoundRequest api_params # evs\<rparr> in
           case res of
             Inl e \<Rightarrow> Raise e st1
           | Inr None \<Rightarrow> Raise none_has_no_content st1
           | Inr (Some resp) \<Rightarrow>
               (let st2 = st1\<lparr>st_messages := st_messages st1 @
                                 [\<lparr>role = ''assistant'', msg_content = Blocks (content resp)\<rparr>],
                              st_response := Some resp\<rparr> in
                case st_tool_manager st2 of
                  None \<Rightarrow> Break st2
                | Some t \<Rightarrow>
                    if stop_reason resp = ''tool_use''
                    then (case execute_tools_for_round exec resp t of
                            (tool_results, t', evs2) \<Rightarrow>
                              (let st3 = st2\<lparr>st_tool_manager := Some t',
                                             st_trace := st_trace st2 @ Batch # evs2\<rparr> in
                               case tool_results of
                                 Some (r # rs) \<Rightarrow>
                                   Continue (st3\<lparr>st_messages := st_messages st3 @
                                      [\<lparr>role = ''user'', msg_content = ToolResults (r # rs)\<rparr>]\<rparr>)
                               | _ \<Rightarrow> Break st3))
                    else Break st2)))"

text \<open>The loop over the round numbers still to come: \<open>Some e\<close> is an exception on its way out.\<close>

fun round_loop ::
  "ai_generator \<Rightarrow> 'c create \<Rightarrow> 't executor \<Rightarrow> string \<Rightarrow> tool_definition list option
     \<Rightarrow> int list \<Rightarrow> ('c, 't) rstate \<Rightarrow> exn option \<times> ('c, 't) rstate"
where
  "round_loop G create exec system_content tool_defs [] st = (None, st)"
| "round_loop G create exec system_content tool_defs (round_num # rest) st =
     (case round_body G create exec system_content tool_defs st of
        Continue st' \<Rightarrow> round_loop G create exec system_content tool_defs rest st'
      | Break st' \<Rightarrow> (None, st')
      | Raise e st' \<Rightarrow> (Some e, st'))"

definition system_content_of :: "ai_generator \<Rightarrow> string option \<Rightarrow> string" where
  "system_content_of G conversation_history =
     (case conversation_history of
        Some (h # hs) \<Rightarrow>
          SYSTEM_PROMPT G @ ''\<newline>\<newline>Previous conversation:\<newline>'' @ (h # hs)
      | _ \<Rightarrow> SYSTEM_PROMPT G)"

text \<open>
  \<open>generate_response(query, conversation_history, tools, tool_manager, max_rounds)\<close>,
  started with the client in state \<open>c\<close>: what it returns or raises, and its final state.
  The parameter \<open>tools\<close> is written \<open>tool_defs\<close> here.
\<close>

definition generate_response ::
  "ai_generator \<Rightarrow> 'c create \<Rightarrow> 't executor \<Rightarrow> 'c \<Rightarrow> string \<Rightarrow> string option
     \<Rightarrow> tool_definition list option \<Rightarrow> 't option \<Rightarrow> int
     \<Rightarrow> (exn + string) \<times> ('c, 't) rstate"
where
  "generate_response G create exec c query conversation_history tool_defs tool_manager max_rounds =
     (let system_content = system_content_of G conversation_history;
          st0 = \<lparr>st_messages = [\<lparr>role = ''user'', msg_content = Text query\<rparr>],
                 st_response = None, st_client = c, st_tool_manager = tool_manager,
                 st_trace = []\<rparr>
      in case round_loop G create exec system_content tool_defs [0..max_rounds - 1] st0 of
           (Some e, st) \<Rightarrow> (Inl e, st)
         | (None, st) \<Rightarrow>
             (case rev (st_messages st) of
                [] \<Rightarrow> (Inl (IndexError ''list index out of range''), st)
              | m # _ \<Rightarrow>
                  if role m = ''user''
                  then
                    (let fp = final_params G (st_messages st) system_content in
                     case api_call_with_retry create fp 2 (st_client st) of
                       (res, c', evs) \<Rightarrow>
                         (let st' = st\<lparr>st_client := c',
                                       st_trace := st_trace st @ FinalRequest fp # evs\<rparr> in
                          case res of
                            Inl e \<Rightarrow> (Inl e, st')
                          | Inr None \<Rightarrow> (Inl none_has_no_content, st')
                          | Inr (Some final_response) \<Rightarrow>
                              (first_text (content final_response), st')))
                  else
                    (case st_response st of
                       None \<Rightarrow>
                         (Inl (UnboundLocalError
                            ''cannot access local variable where it is not associated with a value''),
                          st)
                     | Some response \<Rightarrow> (first_text (content response), st))))"

section \<open>Observing a run\<close>

text \<open>The events of each kind in a trace, and the requests that reached the client.\<close>

fun is_round_request :: "event \<Rightarrow> bool" where
  "is_round_request (RoundRequest p) = True"
| "is_round_request _ = False"

fun is_final_request :: "event \<Rightarrow> bool" where
  "is_final_request (FinalRequest p) = True"
| "is_final_request _ = False"

fun is_create :: "event \<Rightarrow> bool" where
  "is_create (Create p) = True"
| "is_create _ = False"

fun is_sleep :: "event \<Rightarrow> bool" where
  "is_sleep (Sleep d) = True"
| "is_sleep _ = False"

fun is_batch :: "event \<Rightarrow> bool" where
  "is_batch Batch = True"
| "is_batch _ = False"


definition count_events :: "(event \<Rightarrow> bool) \<Rightarrow> event list \<Rightarrow> nat" where
  "count_events P tr = length (filter P tr)"

fun created :: "event list \<Rightarrow> api_params list" where
  "created [] = []"
| "created (Create p # evs) = p # created evs"
| "created (ev # evs) = created evs"

text \<open>A client that answers every call with a response.\<close>

definition never_raises :: "'c create \<Rightarrow> bool" where
  "never_raises create = (\<forall>s p. \<exists>r s'. create s p = (Inr r, s'))"






fun flow_state :: "'a flow \<Rightarrow> 'a" where
  "flow_state (Continue s) = s"
| "flow_state (Break s) = s"
| "flow_state (Raise e s) = s"

text \<open>
  The shape of a message list: the roles alternate, beginning with \<open>user\<close> when the flag is
  set and with \<open>assistant\<close> otherwise.
\<close>

fun alternates :: "bool \<Rightarrow> message list \<Rightarrow> bool" where
  "alternates u [] = True"
| "alternates u (m # ms) =
     (role m = (if u then ''user'' else ''assistant'') \<and> alternates (\<not> u) ms)"

fun tool_use_ids :: "content_block list \<Rightarrow> string list" where
  "tool_use_ids [] = []"
| "tool_use_ids (TextBlock txt # bs) = tool_use_ids bs"
| "tool_use_ids (ToolUseBlock i n inp # bs) = i # tool_use_ids bs"

text \<open>
  A turn answers the turn before it: if its content is a list of tool results, its role is
  \<open>user\<close>, the turn before it is a list of content blocks, and the results are
  \<open>tool_result\<close> entries, one for each \<open>tool_use\<close> block of that turn, in the same order
  and with the same identifiers.
\<close>

definition answers :: "message \<Rightarrow> message \<Rightarrow> bool" where
  "answers a m =
     (case msg_content m of
        ToolResults rs \<Rightarrow>
          role m = ''user'' \<and>
          (case msg_content a of
             Blocks bs \<Rightarrow>
               map tr_tool_use_id rs = tool_use_ids bs
               \<and> list_all (\<lambda>r. tr_type r = ''tool_result'') rs
           | _ \<Rightarrow> False)
      | _ \<Rightarrow> True)"

fun results_follow :: "message list \<Rightarrow> bool" where
  "results_follow (a # m # ms) = (answers a m \<and> results_follow (m # ms))"
| "results_follow ms = True"

definition wf_messages :: "string \<Rightarrow> message list \<Rightarrow> bool" where
  "wf_messages query ms =
     (ms \<noteq> [] \<and> hd ms = \<lparr>role = ''user'', msg_content = Text query\<rparr>
      \<and> alternates True ms \<and> results_follow ms)"

text \<open>Every request recorded in a trace carries a well-formed message list.\<close>

definition requests_wf :: "string \<Rightarrow> event list \<Rightarrow> bool" where
  "requests_wf query tr =
     list_all (\<lambda>ev. case ev of
                  RoundRequest p \<Rightarrow> wf_messages query (p_messages p)
                | FinalRequest p \<Rightarrow> wf_messages query (p_messages p)
                | Create p \<Rightarrow> wf_messages query (p_messages p)
                | _ \<Rightarrow> True) tr"

section \<open>Collaborators for the examples\<close>

text \<open>
  A store with one course, \<open>MCP Course\<close>, whose lesson 0 is found by the query
  \<open>intro\<close>; every other query has no hit.
\<close>

definition example_lessons_json :: string where
  \<open>example_lessons_json = ''[{"lesson_number": 0, "lesson_title": "Introduction"}]''\<close>

definition misshapen_lessons_json :: string where
  \<open>misshapen_lessons_json = ''{"a": 1}''\<close>

definition example_store :: "unit store" where
  "example_store =
     \<lparr>search = (\<lambda>v query course_name lesson_number.
        (Inr (if query = PStr ''intro''
              then \<lparr>documents = [''Welcome''],
                    metadata = [\<lparr>hm_course_title = Some ''MCP'', hm_lesson_number = Some 0\<rparr>],
                    error = None\<rparr>
              else \<lparr>documents = [], metadata = [], error = None\<rparr>), v)),
      get_lesson_link = (\<lambda>v t n. (Inr (Some ''https://example.com/l0''), v)),
      resolve_course_name =
        (\<lambda>v n. (Inr (if n = PStr ''MCP'' then Some ''MCP Course'' else None), v)),
      catalog_get = (\<lambda>v t.
        (Inr (Some [\<lparr>md_title = Some ''MCP Course'',
                     md_course_link = Some ''https://example.com/mcp'',
                     md_instructor = Some ''Ada'',
                     md_lessons_json = Some example_lessons_json\<rparr>]), v)),
      json_loads = (\<lambda>s.
        if s = example_lessons_json
        then Some (JList [JDict [(''lesson_number'', JInt 0),
                                 (''lesson_title'', JStr ''Introduction'')]])
        else if s = ''[]'' then Some (JList [])
        else if s = misshapen_lessons_json then Some (JDict [(''a'', JInt 1)])
        else None),
      container_str = (\<lambda>v. ''[...]'')\<rparr>"

text \<open>
  The same store with a catalog entry whose \<open>lessons_json\<close> is valid JSON but not a list of
  lesson objects.
\<close>

definition misshapen_store :: "unit store" where
  "misshapen_store =
     example_store\<lparr>catalog_get := (\<lambda>v t.
        (Inr (Some [\<lparr>md_title = Some ''MCP Course'',
                     md_course_link = Some ''https://example.com/mcp'',
                     md_instructor = Some ''Ada'',
                     md_lessons_json = Some misshapen_lessons_json\<rparr>]), v))\<rparr>"

definition example_manager :: tool_manager where
  "example_manager =
     \<lparr>tools = [(''search_course_content'', CourseSearchTool []),
               (''get_course_outline'', CourseOutlineTool [])],
      session_sources = []\<rparr>"

definition example_citation :: citation where
  "example_citation =
     \<lparr>display_text = ''MCP - Lesson 0'', lesson_link = Some ''https://example.com/l0''\<rparr>"

text \<open>The manager after one successful search for \<open>intro\<close>.\<close>

definition used_manager :: tool_manager where
  "used_manager =
     \<lparr>tools = [(''search_course_content'', CourseSearchTool [example_citation]),
               (''get_course_outline'', CourseOutlineTool [])],
      session_sources = [example_citation]\<rparr>"

text \<open>
  A client and a tool executor that play a script, as a mock with a list of side effects
  does: each call takes the next entry, and a call after the last one raises.
\<close>

definition scripted_create :: "(exn + response) list create" where
  "scripted_create c api_params =
     (case c of [] \<Rightarrow> (Inl (Exception ''StopIteration''), []) | r # rs \<Rightarrow> (r, rs))"

definition scripted_exec :: "(exn + string) list executor" where
  "scripted_exec t n inp =
     (case t of [] \<Rightarrow> (Inl (Exception ''StopIteration''), []) | r # rs \<Rightarrow> (r, rs))"

definition example_generator :: ai_generator where
  "example_generator = \<lparr>model = ''test_model'', SYSTEM_PROMPT = ''You are an AI assistant''\<rparr>"

definition tool_use_response :: "string \<Rightarrow> response" where
  "tool_use_response i =
     \<lparr>content = [ToolUseBlock i ''search_course_content'' [(''query'', PStr ''test'')]],
      stop_reason = ''tool_use''\<rparr>"

definition text_response :: "string \<Rightarrow> response" where
  "text_response txt = \<lparr>content = [TextBlock txt], stop_reason = ''end_turn''\<rparr>"

definition example_params :: api_params where
  "example_params =
     final_params example_generator [\<lparr>role = ''user'', msg_content = Text ''hi''\<rparr>] ''sys''"

text \<open>
  A client that asks for a tool on every call, and an executor that always succeeds.
\<close>

definition always_tool_use :: "nat create" where
  "always_tool_use c api_params = (Inr (tool_use_response ''tool_x''), Suc c)"

definition constant_exec :: "unit executor" where
  "constant_exec t n inp = (Inr ''Tool result'', t)"

definition always_run :: "(exn + string) \<times> (nat, unit) rstate" where
  "always_run = generate_response example_generator always_tool_use constant_exec 0
            ''Test max rounds'' None None (Some ()) 2"



text \<open>A transient error message spelt with U+212A KELVIN SIGN in place of \<open>k\<close>.\<close>

definition kelvin_message :: string where
  "kelvin_message = ''Networ'' @ [CHR 0xE2, CHR 0x84, CHR 0xAA] @ '' down''"

text \<open>Two rounds of tool use followed by a text answer, as three scripted responses.\<close>

definition two_round_run :: "(exn + string) \<times> ((exn + response) list, unit) rstate" where
  "two_round_run = generate_response example_generator scripted_create constant_exec
     [Inr (tool_use_response ''tool_1''), Inr (tool_use_response ''tool_2''),
      Inr (text_response ''Here is the answer'')]
     ''Tell me about lesson 3'' None (Some [get_tool_definition (CourseSearchTool [])])
     (Some ()) 2"

text \<open>
  A response that asks for a tool after a sentence of text, and two runs in which the tool
  of the first round raises a transient error.
\<close>

definition narrated_tool_use_response :: response where
  "narrated_tool_use_response =
     \<lparr>content = [TextBlock ''Let me search the course materials.'',
                 ToolUseBlock ''tool_1'' ''search_course_content'' [(''query'', PStr ''test'')]],
      stop_reason = ''tool_use''\<rparr>"

definition transient_run :: "(exn + string) \<times> ((exn + response) list, (exn + string) list) rstate" where
  "transient_run = generate_response example_generator scripted_create scripted_exec
     [Inr narrated_tool_use_response, Inr (text_response ''Synthesized answer'')]
     ''What is in lesson 1?'' None (Some [get_tool_definition (CourseSearchTool [])])
     (Some [Inl (Exception ''Rate limit exceeded'')]) 2"

definition network_run :: "(exn + string) \<times> ((exn + response) list, (exn + string) list) rstate" where
  "network_run = generate_response example_generator scripted_create scripted_exec
     [Inr narrated_tool_use_response, Inr (text_response ''Synthesized answer'')]
     ''What is in lesson 1?'' None None (Some [Inl (Exception ''Network unreachable'')]) 3"

section \<open>Strings and dictionaries\<close>

lemma startswith_append: "startswith (p @ s) p"
  by (induction p) auto

lemma startswith_split: "startswith s p \<Longrightarrow> \<exists>post. s = p @ post"
  by (induction s p rule: startswith.induct) auto

lemma str_contains_append: "str_contains sub (pre @ sub @ post)"
proof (induction pre)
  case Nil
  show ?case
    by (cases "sub @ post") (auto simp: startswith_append simp flip: append_Cons dest: sym)
next
  case (Cons c pre)
  then show ?case by simp
qed

text \<open>\<open>str_contains\<close> is the substring test.\<close>

lemma str_contains_iff: "str_contains sub s \<longleftrightarrow> (\<exists>pre post. s = pre @ sub @ post)"
proof
  assume "str_contains sub s"
  then show "\<exists>pre post. s = pre @ sub @ post"
  proof (induction s)
    case Nil
    then show ?case by simp
  next
    case (Cons c cs)
    show ?case
    proof (cases "startswith (c # cs) sub")
      case True
      then obtain post where "c # cs = sub @ post" using startswith_split by blast
      then have "c # cs = [] @ sub @ post" by simp
      then show ?thesis by blast
    next
      case False
      with Cons.prems have "str_contains sub cs" by simp
      then obtain pre post where "cs = pre @ sub @ post" using Cons.IH by blast
      then have "c # cs = (c # pre) @ sub @ post" by simp
      then show ?thesis by blast
    qed
  qed
next
  assume "\<exists>pre post. s = pre @ sub @ post"
  then show "str_contains sub s" using str_contains_append by auto
qed

lemma map_of_dict_set: "map_of (dict_set d k v) = (map_of d)(k \<mapsto> v)"
  by (induction d) (auto simp: fun_eq_iff)

lemma map_fst_dict_set: "map_of d k = Some v' \<Longrightarrow> map fst (dict_set d k v) = map fst d"
  by (induction d) (auto split: if_splits)

section \<open>ToolManager.execute\_tool on an unknown name\<close>

lemma bound_twice_None:
  "bound_twice kw = None \<longleftrightarrow> ''self'' \<notin> fst ` set kw \<and> ''tool_name'' \<notin> fst ` set kw"
proof -
  have "bound_twice kw = None
        \<longleftrightarrow> filter (\<lambda>k. k = ''self'' \<or> k = ''tool_name'') (map fst kw) = []"
    by (simp add: bound_twice_def split: list.splits)
  also have "\<dots> \<longleftrightarrow> ''self'' \<notin> fst ` set kw \<and> ''tool_name'' \<notin> fst ` set kw"
    by (force simp: filter_empty_conv)
  finally show ?thesis .
qed

text \<open>
  C5, as the code has it. For every tool name that is not a key of the registry and every
  call whose keywords do not use the parameter names \<open>self\<close> and \<open>tool_name\<close>,
  \<open>execute_tool\<close> raises nothing: it returns the string \<open>Tool '<name>' not found\<close>, which
  contains \<open>not found\<close>, and leaves the manager and the store as they were. A call with a
  keyword named \<open>self\<close> or \<open>tool_name\<close> raises \<open>TypeError\<close>, whatever the tool name.
\<close>

theorem execute_tool_unknown:
  assumes "tool_name \<notin> fst ` set (tools m)"
  shows "(''self'' \<notin> fst ` set kw \<and> ''tool_name'' \<notin> fst ` set kw
            \<longrightarrow> execute_tool S (m, v) tool_name kw
                  = (Inr (''Tool '' @ quoted tool_name @ '' not found''), m, v)
                \<and> str_contains ''not found'' (''Tool '' @ quoted tool_name @ '' not found''))
         \<and> (''self'' \<in> fst ` set kw \<or> ''tool_name'' \<in> fst ` set kw
            \<longrightarrow> (\<exists>k \<in> {''self'', ''tool_name''}.
                   execute_tool S (m, v) tool_name kw
                   = (Inl (keyword_error ''ToolManager.execute_tool''
                             [''self'', ''tool_name''] k), m, v)))"
proof (intro conjI impI)
  assume free: "''self'' \<notin> fst ` set kw \<and> ''tool_name'' \<notin> fst ` set kw"
  from assms have "map_of (tools m) tool_name = None"
    by (simp add: map_of_eq_None_iff)
  moreover from free have "bound_twice kw = None"
    by (simp add: bound_twice_None)
  ultimately show "execute_tool S (m, v) tool_name kw
               = (Inr (''Tool '' @ quoted tool_name @ '' not found''), m, v)"
    by (simp add: execute_tool_def)
  have "str_contains ''not found'' ((''Tool '' @ quoted tool_name @ '' '') @ ''not found'' @ [])"
    by (rule str_contains_append)
  then show "str_contains ''not found'' (''Tool '' @ quoted tool_name @ '' not found'')"
    by simp
next
  assume "''self'' \<in> fst ` set kw \<or> ''tool_name'' \<in> fst ` set kw"
  then have "bound_twice kw \<noteq> None" by (auto simp: bound_twice_None)
  then obtain k where k: "bound_twice kw = Some k" by auto
  then obtain ks where
    "filter (\<lambda>k. k = ''self'' \<or> k = ''tool_name'') (map fst kw) = k # ks"
    by (auto simp: bound_twice_def split: list.splits)
  then have "k \<in> set (filter (\<lambda>k. k = ''self'' \<or> k = ''tool_name'') (map fst kw))"
    by simp
  then have "k \<in> {''self'', ''tool_name''}" by auto
  with k show "\<exists>k \<in> {''self'', ''tool_name''}.
                   execute_tool S (m, v) tool_name kw
                   = (Inl (keyword_error ''ToolManager.execute_tool''
                             [''self'', ''tool_name''] k), m, v)"
    by (auto simp: execute_tool_def)
qed

theorem execute_tool_unknown_witness:
  "''unknown_tool'' \<notin> fst ` set (tools example_manager)
   \<and> execute_tool example_store (example_manager, ()) ''unknown_tool'' []
       = (Inr ''Tool 'unknown_tool' not found'', example_manager, ())
   \<and> execute_tool example_store (example_manager, ()) ''unknown_tool''
         [(''query'', PStr ''x''), (''self'', PInt 1)]
       = (Inl (TypeError (''ToolManager.execute_tool() got multiple values for argument ''
                           @ quoted ''self'')), example_manager, ())"
proof -
  have a: "''unknown_tool'' \<notin> fst ` set (tools example_manager)"
    by (simp add: example_manager_def)
  from execute_tool_unknown [OF a, of "[]" example_store "()"]
    execute_tool_unknown [OF a, of "[(''query'', PStr ''x''), (''self'', PInt 1)]"
      example_store "()"]
    a
  show ?thesis
    by (auto simp: quoted_def keyword_error_def execute_tool_def bound_twice_def)
qed

text \<open>
  C5, as stated, fails: the tool name is not in the registry, the keyword arguments hold
  the key \<open>tool_name\<close>, and the call raises \<open>TypeError\<close>.
\<close>

theorem execute_tool_unknown_keyword_clash:
  "''unknown_tool'' \<notin> fst ` set (tools example_manager)
   \<and> execute_tool example_store (example_manager, ()) ''unknown_tool''
         [(''tool_name'', PStr ''search_course_content'')]
       = (Inl (TypeError (''ToolManager.execute_tool() got multiple values for argument ''
                           @ quoted ''tool_name'')), example_manager, ())"
  by (simp add: example_manager_def execute_tool_def bound_twice_def keyword_error_def)

section \<open>CourseSearchTool.execute on an empty result\<close>

lemma search_execute_empty:
  assumes "search S v query course_name lesson_number = (Inr results, v')"
    and "error results = None \<or> error results = Some []"
    and "is_empty results"
  shows "search_execute S ls v query course_name lesson_number =
           (Inr (''No relevant content found'' @ filter_info course_name lesson_number @ ''.''),
            ls, v')"
  using assms by (auto simp: search_execute_def)

lemma filter_info_truthy:
  "truthy course_name \<Longrightarrow> truthy lesson_number \<Longrightarrow>
   filter_info course_name lesson_number =
     '' in course '' @ quoted (py_str course_name) @ '' in lesson '' @ py_str lesson_number"
  by (simp add: filter_info_def)

text \<open>The message for the course filter \<open>X\<close> and the lesson filter 3.\<close>

lemma search_execute_X_3:
  assumes "search S v query (PStr ''X'') (PInt 3) = (Inr results, v')"
    and "error results = None \<or> error results = Some []"
    and "is_empty results"
  shows "search_execute S ls v query (PStr ''X'') (PInt 3) =
           (Inr ''No relevant content found in course 'X' in lesson 3.'', ls, v')"
  using search_execute_empty [OF assms]
  by (simp add: filter_info_def quoted_def str_int_def str_nat.simps digit_char_def)

text \<open>
  C6. The message names a filter only when the filter is truthy. A search restricted to
  lesson 0 that has no hit returns \<open>No relevant content found.\<close>: the lesson filter that was
  given is not named, whereas \<open>_format_results\<close> tests lesson numbers with
  \<open>is not None\<close> and does show lesson 0.
\<close>

theorem search_lesson_zero_not_named:
  "tool_execute example_store (CourseSearchTool []) ()
     [(''query'', PStr ''basics''), (''lesson_number'', PInt 0)]
   = (Inr ''No relevant content found.'', CourseSearchTool [], ())"
  by (simp add: example_store_def search_execute_def unexpected_keyword_def kw_get_def
      is_empty_def filter_info_def)

section \<open>ToolManager.reset\_sources\<close>

lemma has_last_sources_True [simp]: "has_last_sources t"
  by (cases t) auto

lemma last_sources_set [simp]: "last_sources (set_last_sources t ls) = ls"
  by (cases t) auto

lemma first_sources_all_empty: "\<forall>t \<in> set ts. last_sources t = [] \<Longrightarrow> first_sources ts = []"
  by (induction ts) auto

text \<open>
  C8. After \<open>reset_sources\<close> the session log is empty, every registered tool has an empty
  \<open>last_sources\<close>, the registry holds the same names, and \<open>get_last_sources\<close> returns the
  empty list.
\<close>

theorem reset_sources_clears:
  "get_all_sources_from_session (reset_sources m) = []
   \<and> (\<forall>(k, t) \<in> set (tools (reset_sources m)). last_sources t = [])
   \<and> map fst (tools (reset_sources m)) = map fst (tools m)
   \<and> get_last_sources (reset_sources m) = []"
proof -
  have a: "\<forall>(k, t) \<in> set (tools (reset_sources m)). last_sources t = []"
    by (auto simp: reset_sources_def)
  then have "\<forall>t \<in> set (map snd (tools (reset_sources m))). last_sources t = []"
    by auto
  then have "get_last_sources (reset_sources m) = []"
    unfolding get_last_sources_def by (rule first_sources_all_empty)
  moreover have "map fst (tools (reset_sources m)) = map fst (tools m)"
    by (simp add: reset_sources_def case_prod_beta comp_def)
  moreover have "get_all_sources_from_session (reset_sources m) = []"
    by (simp add: reset_sources_def get_all_sources_from_session_def)
  ultimately show ?thesis using a by blast
qed

theorem reset_sources_clears_witness:
  "get_last_sources used_manager \<noteq> []
   \<and> get_all_sources_from_session used_manager \<noteq> []
   \<and> tools (reset_sources used_manager)
       = [(''search_course_content'', CourseSearchTool []),
          (''get_course_outline'', CourseOutlineTool [])]
   \<and> get_all_sources_from_session (reset_sources used_manager) = []
   \<and> get_last_sources (reset_sources used_manager) = []"
  using reset_sources_clears [of used_manager]
  by (simp add: used_manager_def reset_sources_def get_last_sources_def
      get_all_sources_from_session_def)

section \<open>CourseOutlineTool.execute\<close>

lemma lesson_lines_objects:
  "lesson_lines S (map JDict ds) outline =
     Inr (outline @ map (\<lambda>d. ''  Lesson '' @ json_str S (json_get d ''lesson_number'' (JStr []))
                               @ '': '' @ json_str S (json_get d ''lesson_title'' (JStr []))) ds)"
  by (induction ds arbitrary: outline) (simp_all add: Let_def)

lemma lesson_lines_other:
  "(\<nexists>ds. xs = map JDict ds) \<Longrightarrow> \<exists>e. lesson_lines S xs outline = Inl e"
proof (induction xs arbitrary: outline)
  case Nil
  then show ?case by simp
next
  case (Cons x xs)
  show ?case
  proof (cases x)
    case (JDict d)
    have "\<nexists>ds. xs = map JDict ds"
    proof
      assume "\<exists>ds. xs = map JDict ds"
      then obtain ds where "xs = map JDict ds" by blast
      with JDict have "x # xs = map JDict (d # ds)" by simp
      then have "\<exists>ds'. x # xs = map JDict ds'" by (rule exI)
      with Cons.prems show False by simp
    qed
    from Cons.IH [OF this] JDict show ?thesis by (simp add: Let_def)
  qed simp_all
qed

lemma lessons_raise:
  assumes "json_truthy j" and "\<nexists>ds. j = JList (map JDict ds)"
  shows "\<exists>e. (case iterate j of Inl e \<Rightarrow> Inl e | Inr xs \<Rightarrow> lesson_lines S xs outline) = Inl e"
proof (cases j)
  case (JStr s)
  with assms(1) obtain c cs where "s = c # cs" by (cases s) auto
  with JStr show ?thesis by simp
next
  case (JList xs)
  with assms(2) have "\<nexists>ds. xs = map JDict ds" by simp
  from lesson_lines_other [OF this] JList show ?thesis by simp
next
  case (JDict d)
  with assms(1) obtain k v d' where "d = (k, v) # d'" by (cases d) auto
  with JDict show ?thesis by simp
qed (use assms in simp_all)

text \<open>
  C9, as the code has it. When the resolver returns no title (\<open>None\<close> or the empty string)
  the tool returns \<open>No course found matching '<name>'\<close> and its \<open>last_sources\<close> stays as
  it was. When the resolver returns a title and the catalog returns metadata for it, the
  outcome depends on what \<open>lessons_json\<close> decodes to. If it does not decode, or decodes to a
  falsy value, the tool returns the title line, the instructor line and the link line (each
  of the two only when the field is not empty) and the line \<open>No lessons found\<close>; if it
  decodes to a non-empty list of objects, the same heading is followed by \<open>Lessons:\<close> and
  one line \<open>Lesson <n>: <title>\<close> for each object; in both cases \<open>last_sources\<close> becomes the
  single citation \<open><title> - Course Outline\<close> with the course link. If it decodes to any
  other value, the tool returns \<open>Error retrieving course outline: ...\<close> and \<open>last_sources\<close>
  stays as it was.
\<close>

theorem outline_execute_result:
  "(resolve_course_name S v course_name = (Inr r, v') \<and> (r = None \<or> r = Some [])
      \<longrightarrow> outline_execute S ls v course_name
            = (Inr (''No course found matching '' @ quoted (py_str course_name)), ls, v'))
   \<and> (resolve_course_name S v course_name = (Inr (Some course_title), v')
        \<and> course_title \<noteq> []
        \<and> catalog_get S v' course_title = (Inr (Some (md # mds)), v'')
      \<longrightarrow> (let title = (case md_title md of None \<Rightarrow> ''Unknown Course'' | Some t \<Rightarrow> t);
                course_link = (case md_course_link md of None \<Rightarrow> [] | Some l \<Rightarrow> l);
                instructor = (case md_instructor md of None \<Rightarrow> [] | Some i \<Rightarrow> i);
                decoded = json_loads S (case md_lessons_json md of None \<Rightarrow> ''[]'' | Some j \<Rightarrow> j);
                heading = [''Course: '' @ title]
                          @ (if instructor \<noteq> [] then [''Instructor: '' @ instructor] else [])
                          @ (if course_link \<noteq> [] then [''Course Link: '' @ course_link] else []);
                cited = [\<lparr>display_text = title @ '' - Course Outline'',
                          lesson_link = Some course_link\<rparr>]
            in (decoded = None \<or> (\<exists>j. decoded = Some j \<and> \<not> json_truthy j)
                  \<longrightarrow> outline_execute S ls v course_name
                        = (Inr (join ''\<newline>'' (heading @ [''\<newline>No lessons found''])),
                           cited, v''))
             \<and> (\<forall>ds. decoded = Some (JList (map JDict ds)) \<and> ds \<noteq> []
                  \<longrightarrow> outline_execute S ls v course_name
                        = (Inr (join ''\<newline>''
                                  (heading @ ''\<newline>Lessons:''
                                     # map (\<lambda>d. ''  Lesson ''
                                              @ json_str S (json_get d ''lesson_number'' (JStr []))
                                              @ '': ''
                                              @ json_str S (json_get d ''lesson_title'' (JStr [])))
                                         ds)),
                           cited, v''))
             \<and> (\<forall>j. decoded = Some j \<and> json_truthy j \<and> (\<nexists>ds. j = JList (map JDict ds))
                  \<longrightarrow> (\<exists>e. outline_execute S ls v course_name
                             = (Inr (''Error retrieving course outline: '' @ exc_str e),
                                ls, v'')))))"
proof (intro conjI impI)
  assume "resolve_course_name S v course_name = (Inr r, v') \<and> (r = None \<or> r = Some [])"
  then show "outline_execute S ls v course_name
            = (Inr (''No course found matching '' @ quoted (py_str course_name)), ls, v')"
    by (auto simp: outline_execute_def)
next
  assume a: "resolve_course_name S v course_name = (Inr (Some course_title), v')
        \<and> course_title \<noteq> []
        \<and> catalog_get S v' course_title = (Inr (Some (md # mds)), v'')"
  define title where "title = (case md_title md of None \<Rightarrow> ''Unknown Course'' | Some t \<Rightarrow> t)"
  define course_link where "course_link = (case md_course_link md of None \<Rightarrow> [] | Some l \<Rightarrow> l)"
  define instructor where "instructor = (case md_instructor md of None \<Rightarrow> [] | Some i \<Rightarrow> i)"
  define decoded where
    "decoded = json_loads S (case md_lessons_json md of None \<Rightarrow> ''[]'' | Some j \<Rightarrow> j)"
  define heading where "heading = [''Course: '' @ title]
                          @ (if instructor \<noteq> [] then [''Instructor: '' @ instructor] else [])
                          @ (if course_link \<noteq> [] then [''Course Link: '' @ course_link] else [])"
  define cited where "cited = [\<lparr>display_text = title @ '' - Course Outline'',
                          lesson_link = Some course_link\<rparr>]"
  note defs = title_def course_link_def instructor_def decoded_def heading_def cited_def
  have fo: "format_outline S md =
      (case (if json_truthy (case decoded of None \<Rightarrow> JList [] | Some j \<Rightarrow> j)
               then (case iterate (case decoded of None \<Rightarrow> JList [] | Some j \<Rightarrow> j) of
                       Inl e \<Rightarrow> Inl e
                     | Inr xs \<Rightarrow> lesson_lines S xs (heading @ [''\<newline>Lessons:'']))
               else Inr (heading @ [''\<newline>No lessons found''])) of
           Inl e \<Rightarrow> Inl e
         | Inr outline' \<Rightarrow> Inr (join ''\<newline>'' outline', cited))"
    unfolding format_outline_def Let_def defs opt_default_def by (rule refl)
  from a obtain c cs where ct: "course_title = c # cs" by (cases course_title) auto
  have oe: "outline_execute S ls v course_name =
      (case format_outline S md of
         Inl e \<Rightarrow> (Inr (''Error retrieving course outline: '' @ exc_str e), ls, v'')
       | Inr (text, sources) \<Rightarrow> (Inr text, sources, v''))"
    using a ct by (simp add: outline_execute_def)
  have none: "outline_execute S ls v course_name
                = (Inr (join ''\<newline>'' (heading @ [''\<newline>No lessons found''])), cited, v'')"
    if "decoded = None \<or> (\<exists>j. decoded = Some j \<and> \<not> json_truthy j)"
    using that by (auto simp: oe fo)
  have some: "outline_execute S ls v course_name
                = (Inr (join ''\<newline>''
                          (heading @ ''\<newline>Lessons:''
                             # map (\<lambda>d. ''  Lesson ''
                                      @ json_str S (json_get d ''lesson_number'' (JStr []))
                                      @ '': ''
                                      @ json_str S (json_get d ''lesson_title'' (JStr [])))
                                 ds)),
                   cited, v'')"
    if "decoded = Some (JList (map JDict ds)) \<and> ds \<noteq> []" for ds
    using that by (simp add: oe fo lesson_lines_objects)
  have other: "\<exists>e. outline_execute S ls v course_name
                     = (Inr (''Error retrieving course outline: '' @ exc_str e), ls, v'')"
    if "decoded = Some j \<and> json_truthy j \<and> (\<nexists>ds. j = JList (map JDict ds))" for j
  proof -
    from that lessons_raise [of j S "heading @ [''\<newline>Lessons:'']"] obtain e where
      "(case iterate j of Inl e \<Rightarrow> Inl e
        | Inr xs \<Rightarrow> lesson_lines S xs (heading @ [''\<newline>Lessons:''])) = Inl e"
      by blast
    with that have "format_outline S md = Inl e" by (simp add: fo)
    then show ?thesis by (auto simp: oe)
  qed
  show "let title = (case md_title md of None \<Rightarrow> ''Unknown Course'' | Some t \<Rightarrow> t);
                course_link = (case md_course_link md of None \<Rightarrow> [] | Some l \<Rightarrow> l);
                instructor = (case md_instructor md of None \<Rightarrow> [] | Some i \<Rightarrow> i);
                decoded = json_loads S (case md_lessons_json md of None \<Rightarrow> ''[]'' | Some j \<Rightarrow> j);
                heading = [''Course: '' @ title]
                          @ (if instructor \<noteq> [] then [''Instructor: '' @ instructor] else [])
                          @ (if course_link \<noteq> [] then [''Course Link: '' @ course_link] else []);
                cited = [\<lparr>display_text = title @ '' - Course Outline'',
                          lesson_link = Some course_link\<rparr>]
            in (decoded = None \<or> (\<exists>j. decoded = Some j \<and> \<not> json_truthy j)
                  \<longrightarrow> outline_execute S ls v course_name
                        = (Inr (join ''\<newline>'' (heading @ [''\<newline>No lessons found''])),
                           cited, v''))
             \<and> (\<forall>ds. decoded = Some (JList (map JDict ds)) \<and> ds \<noteq> []
                  \<longrightarrow> outline_execute S ls v course_name
                        = (Inr (join ''\<newline>''
                                  (heading @ ''\<newline>Lessons:''
                                     # map (\<lambda>d. ''  Lesson ''
                                              @ json_str S (json_get d ''lesson_number'' (JStr []))
                                              @ '': ''
                                              @ json_str S (json_get d ''lesson_title'' (JStr [])))
                                         ds)),
                           cited, v''))
             \<and> (\<forall>j. decoded = Some j \<and> json_truthy j \<and> (\<nexists>ds. j = JList (map JDict ds))
                  \<longrightarrow> (\<exists>e. outline_execute S ls v course_name
                             = (Inr (''Error retrieving course outline: '' @ exc_str e),
                                ls, v'')))"
    unfolding Let_def defs [symmetric] using none some other by blast
qed

theorem outline_execute_result_witness:
  "outline_execute example_store [] () (PStr ''Zzz'')
     = (Inr (''No course found matching '' @ quoted ''Zzz''), [], ())
   \<and> outline_execute example_store [] () (PStr ''MCP'')
     = (Inr ''Course: MCP Course\<newline>Instructor: Ada\<newline>Course Link: https://example.com/mcp\<newline>\<newline>Lessons:\<newline>  Lesson 0: Introduction'',
        [\<lparr>display_text = ''MCP Course - Course Outline'',
          lesson_link = Some ''https://example.com/mcp''\<rparr>], ())"
  using outline_execute_result [where S = example_store and v = "()" and v' = "()"
      and course_name = "PStr ''Zzz''" and r = None and ls = "[]"]
    outline_execute_result [where S = example_store and v = "()" and v' = "()" and v'' = "()"
      and course_name = "PStr ''MCP''" and course_title = "''MCP Course''" and ls = "[]"
      and md = "\<lparr>md_title = Some ''MCP Course'',
                 md_course_link = Some ''https://example.com/mcp'',
                 md_instructor = Some ''Ada'',
                 md_lessons_json = Some example_lessons_json\<rparr>" and mds = "[]",
      THEN conjunct2, unfolded Let_def, THEN mp, THEN conjunct2, THEN conjunct1,
      THEN spec [where x = "[[(''lesson_number'', JInt 0),
                             (''lesson_title'', JStr ''Introduction'')]]"]]
  by (simp add: example_store_def quoted_def json_get_def str_int_def str_nat.simps
      digit_char_def example_lessons_json_def)

text \<open>
  C9, as stated, fails: the course is resolved and its metadata is found, but
  \<open>lessons_json\<close> decodes to a dictionary; the tool returns an error text and records no
  citation.
\<close>

theorem outline_misshapen_lessons:
  "resolve_course_name misshapen_store () (PStr ''MCP'') = (Inr (Some ''MCP Course''), ())
   \<and> fst (catalog_get misshapen_store () ''MCP Course'')
       = Inr (Some [\<lparr>md_title = Some ''MCP Course'',
                      md_course_link = Some ''https://example.com/mcp'',
                      md_instructor = Some ''Ada'',
                      md_lessons_json = Some misshapen_lessons_json\<rparr>])
   \<and> outline_execute misshapen_store [] () (PStr ''MCP'')
       = (Inr (''Error retrieving course outline: '' @ quoted ''str''
                 @ '' object has no attribute '' @ quoted ''get''), [], ())"
  by (simp add: misshapen_store_def example_store_def outline_execute_def format_outline_def
      opt_default_def misshapen_lessons_json_def example_lessons_json_def)

section \<open>The session log after ToolManager.execute\_tool\<close>

lemma search_execute_no_new_sources:
  assumes "search S v query course_name lesson_number = (Inr results, v1)"
    and "(\<exists>c cs. error results = Some (c # cs)) \<or> is_empty results"
  shows "\<exists>r. search_execute S ls v query course_name lesson_number = (Inr r, ls, v1)"
  using assms by (auto simp: search_execute_def split: option.splits list.splits)

text \<open>
  C10. When \<open>execute_tool\<close> runs a registered tool and the tool returns, the tool's whole
  \<open>last_sources\<close>, as it is after the call, is appended to the session log. When the tool is
  the search tool and the search reported an error or had no hit, \<open>last_sources\<close> is what it
  was before the call, so the citations of the earlier call are appended once more.
\<close>

theorem execute_tool_appends_last_sources:
  assumes "map_of (tools m) tool_name = Some t"
    and "execute_tool S (m, v) tool_name kw = (Inr result, m', v')"
  shows "(\<exists>t'. tool_execute S t v kw = (Inr result, t', v')
              \<and> map_of (tools m') tool_name = Some t'
              \<and> session_sources m' = session_sources m @ last_sources t')
         \<and> (\<forall>ls query results v1.
               t = CourseSearchTool ls
               \<and> unexpected_keyword [''query'', ''course_name'', ''lesson_number''] kw = None
               \<and> map_of kw ''query'' = Some query
               \<and> search S v query (kw_get kw ''course_name'' PNone)
                    (kw_get kw ''lesson_number'' PNone) = (Inr results, v1)
               \<and> ((\<exists>c cs. error results = Some (c # cs)) \<or> is_empty results)
               \<longrightarrow> map_of (tools m') tool_name = Some (CourseSearchTool ls)
                   \<and> session_sources m' = session_sources m @ ls)"
proof -
  obtain res t' v2 where te: "tool_execute S t v kw = (res, t', v2)"
    by (cases "tool_execute S t v kw") auto
  from assms te have res: "res = Inr result" and v2: "v2 = v'"
    and m': "m' = (m\<lparr>tools := dict_set (tools m) tool_name t'\<rparr>)
                    \<lparr>session_sources := session_sources m @ last_sources t'\<rparr>"
    by (auto simp: execute_tool_def Let_def split: sum.splits option.splits)
  from m' have look: "map_of (tools m') tool_name = Some t'"
    by (simp add: map_of_dict_set)
  from m' have sess: "session_sources m' = session_sources m @ last_sources t'"
    by simp
  have first: "\<exists>t'. tool_execute S t v kw = (Inr result, t', v')
              \<and> map_of (tools m') tool_name = Some t'
              \<and> session_sources m' = session_sources m @ last_sources t'"
    using te res v2 look sess by blast
  have second: "map_of (tools m') tool_name = Some (CourseSearchTool ls)
                   \<and> session_sources m' = session_sources m @ ls"
    if t: "t = CourseSearchTool ls"
      and uk: "unexpected_keyword [''query'', ''course_name'', ''lesson_number''] kw = None"
      and q: "map_of kw ''query'' = Some query"
      and s: "search S v query (kw_get kw ''course_name'' PNone)
                    (kw_get kw ''lesson_number'' PNone) = (Inr results, v1)"
      and e: "(\<exists>c cs. error results = Some (c # cs)) \<or> is_empty results"
    for ls query results v1
  proof -
    from search_execute_no_new_sources [OF s e, of ls] obtain r where
      "search_execute S ls v query (kw_get kw ''course_name'' PNone)
                    (kw_get kw ''lesson_number'' PNone) = (Inr r, ls, v1)" by blast
    with t uk q have "tool_execute S t v kw = (Inr r, CourseSearchTool ls, v1)"
      by simp
    with te have "t' = CourseSearchTool ls" by simp
    with look sess show ?thesis by simp
  qed
  from first second show ?thesis by blast
qed

theorem execute_tool_appends_last_sources_witness:
  "execute_tool example_store (example_manager, ()) ''search_course_content''
       [(''query'', PStr ''intro'')]
     = (Inr ''[MCP - Lesson 0]\<newline>Welcome'', used_manager, ())
   \<and> execute_tool example_store (used_manager, ()) ''search_course_content''
       [(''query'', PStr ''basics'')]
     = (Inr ''No relevant content found.'',
        used_manager\<lparr>session_sources := [example_citation, example_citation]\<rparr>, ())"
proof -
  have run: "execute_tool example_store (used_manager, ()) ''search_course_content''
       [(''query'', PStr ''basics'')]
     = (Inr ''No relevant content found.'',
        used_manager\<lparr>session_sources := [example_citation, example_citation]\<rparr>, ())"
    by (simp add: execute_tool_def used_manager_def example_store_def search_execute_def
        unexpected_keyword_def kw_get_def is_empty_def filter_info_def example_citation_def
        bound_twice_def)
  have look: "map_of (tools used_manager) ''search_course_content''
     = Some (CourseSearchTool [example_citation])"
    by (simp add: used_manager_def example_citation_def)
  have first: "execute_tool example_store (example_manager, ()) ''search_course_content''
       [(''query'', PStr ''intro'')]
     = (Inr ''[MCP - Lesson 0]\<newline>Welcome'', used_manager, ())"
    by (simp add: execute_tool_def used_manager_def example_manager_def example_store_def
        search_execute_def unexpected_keyword_def kw_get_def is_empty_def format_results_def
        hit_title_def lesson_suffix_def str_int_def str_nat.simps digit_char_def
        example_citation_def bound_twice_def)
  from execute_tool_appends_last_sources [OF look run] first run show ?thesis by simp
qed

section \<open>The retry policy of \_api\_call\_with\_retry\<close>

lemma retry_loop_shape:
  assumes "0 \<le> a" and "a \<le> m" and "retry_loop create p m [a..m] c = (res, c', evs)"
  shows "\<exists>k. nat a + k \<le> nat m
           \<and> evs = concat (map (\<lambda>i. [Create p, Sleep (2 ^ i)]) [nat a..<nat a + k]) @ [Create p]
           \<and> res \<noteq> Inr None
           \<and> (\<forall>e. res = Inl e \<and> api_transient e \<longrightarrow> nat a + k = nat m)"
  using assms
proof (induction "nat (m - a)" arbitrary: a c res c' evs)
  case 0
  then have am: "a = m" by simp
  then have l: "[a..m] = [m]" by (simp add: upto_rec1)
  obtain r c1 where cr: "create c p = (r, c1)" by (cases "create c p") auto
  from 0 l cr am have "evs = [Create p] \<and> res \<noteq> Inr None"
    by (cases r) (auto)
  then show ?case using am by (intro exI [of _ 0]) simp
next
  case (Suc n)
  then have lt: "a < m" by simp
  then have l: "[a..m] = a # [a + 1..m]" by (simp add: upto_rec1)
  obtain r c1 where cr: "create c p = (r, c1)" by (cases "create c p") auto
  show ?case
  proof (cases r)
    case (Inr resp)
    with Suc.prems l cr have "evs = [Create p] \<and> res = Inr (Some resp)" by auto
    then show ?thesis using lt by (intro exI [of _ 0]) simp
  next
    case (Inl e)
    show ?thesis
    proof (cases "api_transient e")
      case False
      with Suc.prems l cr Inl lt have "evs = [Create p] \<and> res = Inl e" by auto
      with False lt show ?thesis by (intro exI [of _ 0]) simp
    next
      case True
      obtain res2 c2 evs2 where rec: "retry_loop create p m [a + 1..m] c1 = (res2, c2, evs2)"
        by (cases "retry_loop create p m [a + 1..m] c1") auto
      with Suc.prems l cr Inl lt True
      have eq: "res = res2" "evs = Create p # Sleep (2 ^ nat a) # evs2" by auto
      from Suc.hyps(2) lt have n: "n = nat (m - (a + 1))" by simp
      from Suc.prems(1) have a1: "0 \<le> a + 1" by simp
      from lt have a1m: "a + 1 \<le> m" by simp
      from Suc.hyps(1) [OF n a1 a1m rec] obtain k where
        k: "nat (a + 1) + k \<le> nat m"
           "evs2 = concat (map (\<lambda>i. [Create p, Sleep (2 ^ i)]) [nat (a + 1)..<nat (a + 1) + k]) @ [Create p]"
           "res2 \<noteq> Inr None"
           "\<forall>e. res2 = Inl e \<and> api_transient e \<longrightarrow> nat (a + 1) + k = nat m"
        by blast
      from Suc.prems(1) have na: "nat (a + 1) = Suc (nat a)" by simp
      have "[nat a..<nat a + Suc k] = nat a # [Suc (nat a)..<Suc (nat a) + k]"
        by (simp add: upt_conv_Cons)
      with k eq na show ?thesis
        by (intro exI [of _ "Suc k"]) simp
    qed
  qed
qed

text \<open>
  C7. An error is transient when the lower-cased message, lower-cased as \<open>str.lower\<close>
  does it, holds \<open>rate limit\<close>, \<open>network\<close> or \<open>connection\<close>. In the retry loop an error
  that is not transient is raised at once, after that one call of the client; a transient error at an attempt before the last one is followed by a
  sleep of \<open>2 ^ attempt\<close> seconds and the next attempt. For a ceiling \<open>max_retries \<ge> 0\<close>
  the whole call therefore makes \<open>k + 1\<close> calls of the client with the sleeps
  \<open>1, 2, 4, ...\<close> between them, for some \<open>k \<le> max_retries\<close>; it returns a response or
  raises, and it raises a transient error only after all \<open>max_retries\<close> retries.
\<close>

theorem api_call_with_retry_policy:
  "(create c p = (Inl e, cn) \<and> \<not> api_transient e
      \<longrightarrow> retry_loop create p max_retries (attempt # rest) c = (Inl e, cn, [Create p]))
   \<and> (create c p = (Inl e, cn) \<and> api_transient e \<and> attempt \<noteq> max_retries
      \<longrightarrow> retry_loop create p max_retries (attempt # rest) c
           = (case retry_loop create p max_retries rest cn of
                (res, cl, evs) \<Rightarrow> (res, cl, Create p # Sleep (2 ^ nat attempt) # evs)))
   \<and> (create c p = (Inl e, cn) \<and> \<not> api_transient e \<and> 0 \<le> max_retries
      \<longrightarrow> api_call_with_retry create p max_retries c = (Inl e, cn, [Create p]))
   \<and> (0 \<le> max_retries \<and> api_call_with_retry create p max_retries c = (res, c', evs)
      \<longrightarrow> (\<exists>k \<le> nat max_retries.
             evs = concat (map (\<lambda>i. [Create p, Sleep (2 ^ i)]) [0..<k]) @ [Create p]
             \<and> res \<noteq> Inr None
             \<and> (\<forall>e'. res = Inl e' \<and> api_transient e' \<longrightarrow> k = nat max_retries)))"
proof (intro conjI impI)
  assume "create c p = (Inl e, cn) \<and> \<not> api_transient e"
  then show "retry_loop create p max_retries (attempt # rest) c = (Inl e, cn, [Create p])"
    by simp
next
  assume "create c p = (Inl e, cn) \<and> api_transient e \<and> attempt \<noteq> max_retries"
  then show "retry_loop create p max_retries (attempt # rest) c
           = (case retry_loop create p max_retries rest cn of
                (res, cl, evs) \<Rightarrow> (res, cl, Create p # Sleep (2 ^ nat attempt) # evs))"
    by simp
next
  assume a: "create c p = (Inl e, cn) \<and> \<not> api_transient e \<and> 0 \<le> max_retries"
  then have "[0..max_retries] = 0 # [1..max_retries]" by (simp add: upto_rec1)
  with a show "api_call_with_retry create p max_retries c = (Inl e, cn, [Create p])"
    by (simp add: api_call_with_retry_def)
next
  assume a: "0 \<le> max_retries \<and> api_call_with_retry create p max_retries c = (res, c', evs)"
  then have "retry_loop create p max_retries [0..max_retries] c = (res, c', evs)"
    by (simp add: api_call_with_retry_def)
  from retry_loop_shape [OF _ _ this] a
  show "\<exists>k \<le> nat max_retries.
             evs = concat (map (\<lambda>i. [Create p, Sleep (2 ^ i)]) [0..<k]) @ [Create p]
             \<and> res \<noteq> Inr None
             \<and> (\<forall>e'. res = Inl e' \<and> api_transient e' \<longrightarrow> k = nat max_retries)"
    by auto
qed

lemma upto_0_2: "[0..2::int] = [0, 1, 2]"
  by (simp add: upto_rec1)

lemma transient_rate_limit: "api_transient (Exception ''Rate limit exceeded'')"
  by code_simp

lemma transient_connection: "api_transient (Exception ''Connection reset'')"
  by code_simp

lemma transient_network: "api_transient (Exception ''network unreachable'')"
  by code_simp

lemma not_transient_api_key: "\<not> api_transient (Exception ''invalid api key'')"
  by code_simp

lemma transient_kelvin: "api_transient (Exception kelvin_message)"
  unfolding kelvin_message_def by code_simp

theorem api_call_with_retry_policy_witness:
  "api_call_with_retry scripted_create example_params 2
      [Inl (Exception ''Rate limit exceeded''), Inl (Exception ''Connection reset''),
       Inl (Exception ''network unreachable''), Inr (text_response ''late'')]
     = (Inl (Exception ''network unreachable''), [Inr (text_response ''late'')],
        [Create example_params, Sleep 1, Create example_params, Sleep 2, Create example_params])
   \<and> api_call_with_retry scripted_create example_params 2
      [Inl (Exception ''Rate limit exceeded''), Inr (text_response ''ok'')]
     = (Inr (Some (text_response ''ok'')), [],
        [Create example_params, Sleep 1, Create example_params])
   \<and> api_call_with_retry scripted_create example_params 2
      [Inl (Exception ''invalid api key''), Inr (text_response ''never asked'')]
     = (Inl (Exception ''invalid api key''), [Inr (text_response ''never asked'')],
        [Create example_params])
   \<and> api_call_with_retry scripted_create example_params 2
      [Inl (Exception kelvin_message), Inr (text_response ''ok'')]
     = (Inr (Some (text_response ''ok'')), [],
        [Create example_params, Sleep 1, Create example_params])"
proof -
  have k: "api_call_with_retry scripted_create example_params 2
      [Inl (Exception kelvin_message), Inr (text_response ''ok'')]
     = (Inr (Some (text_response ''ok'')), [],
        [Create example_params, Sleep 1, Create example_params])"
    using transient_kelvin
    by (simp add: api_call_with_retry_def upto_0_2 scripted_create_def)
  have a: "scripted_create [Inl (Exception ''invalid api key''), Inr (text_response ''never asked'')]
             example_params
           = (Inl (Exception ''invalid api key''), [Inr (text_response ''never asked'')])
           \<and> \<not> api_transient (Exception ''invalid api key'') \<and> (0::int) \<le> 2"
    using not_transient_api_key by (simp add: scripted_create_def)
  have b: "api_call_with_retry scripted_create example_params 2
      [Inl (Exception ''Rate limit exceeded''), Inl (Exception ''Connection reset''),
       Inl (Exception ''network unreachable''), Inr (text_response ''late'')]
     = (Inl (Exception ''network unreachable''), [Inr (text_response ''late'')],
        [Create example_params, Sleep 1, Create example_params, Sleep 2, Create example_params])"
    using transient_rate_limit transient_connection transient_network by (simp add: api_call_with_retry_def upto_0_2 scripted_create_def)
  have c: "api_call_with_retry scripted_create example_params 2
      [Inl (Exception ''Rate limit exceeded''), Inr (text_response ''ok'')]
     = (Inr (Some (text_response ''ok'')), [],
        [Create example_params, Sleep 1, Create example_params])"
    using transient_rate_limit by (simp add: api_call_with_retry_def upto_0_2 scripted_create_def)
  from api_call_with_retry_policy [where create = scripted_create and p = example_params
      and c = "[Inl (Exception ''invalid api key''), Inr (text_response ''never asked'')]"
      and e = "Exception ''invalid api key''" and cn = "[Inr (text_response ''never asked'')]"
      and max_retries = 2]
    api_call_with_retry_policy [where create = scripted_create and p = example_params
      and c = "[Inl (Exception ''Rate limit exceeded''), Inr (text_response ''ok'')]"
      and e = "Exception ''Rate limit exceeded''" and cn = "[Inr (text_response ''ok'')]"
      and max_retries = 2 and attempt = 0 and rest = "[1, 2]"
      and res = "Inr (Some (text_response ''ok''))" and c' = "[]"
      and evs = "[Create example_params, Sleep 1, Create example_params]"]
    api_call_with_retry_policy [where create = scripted_create and p = example_params
      and c = "[Inl (Exception kelvin_message), Inr (text_response ''ok'')]"
      and e = "Exception kelvin_message" and cn = "[Inr (text_response ''ok'')]"
      and max_retries = 2 and attempt = 0 and rest = "[1, 2]"]
    a b c k
  show ?thesis by simp
qed


section \<open>The events of a run of generate\_response\<close>

lemma count_events_simps [simp]:
  "count_events P [] = 0"
  "count_events P (e # tr) = (if P e then Suc (count_events P tr) else count_events P tr)"
  "count_events P (tr @ tr') = count_events P tr + count_events P tr'"
  by (simp_all add: count_events_def)

lemma retry_loop_events:
  assumes "retry_loop create p m attempts c = (res, c', evs)"
  shows "count_events is_round_request evs = 0 \<and> count_events is_final_request evs = 0
         \<and> count_events is_batch evs = 0
         \<and> count_events is_create evs \<le> Suc (count_events is_sleep evs)
         \<and> (never_raises create \<longrightarrow> count_events is_sleep evs = 0)"
  using assms
proof (induction attempts arbitrary: c res c' evs)
  case Nil
  then show ?case by simp
next
  case (Cons a attempts)
  obtain r cn where cr: "create c p = (r, cn)" by (cases "create c p") auto
  show ?case
  proof (cases r)
    case (Inr resp)
    with Cons.prems cr show ?thesis by auto
  next
    case (Inl e)
    then have nr: "\<not> never_raises create" using cr
      by (auto simp: never_raises_def) (metis Inl_Inr_False fst_conv)
    obtain res2 cl evs2 where rec: "retry_loop create p m attempts cn = (res2, cl, evs2)"
      by (cases "retry_loop create p m attempts cn") auto
    from Cons.IH [OF rec] Cons.prems cr Inl rec nr show ?thesis
      by (auto split: if_splits)
  qed
qed

lemma tools_loop_events:
  assumes "tools_loop exec blocks acc t = (res, t', evs)"
  shows "count_events is_round_request evs = 0 \<and> count_events is_final_request evs = 0
         \<and> count_events is_batch evs = 0 \<and> count_events is_create evs = 0
         \<and> count_events is_sleep evs = 0"
  using assms
proof (induction exec blocks acc t arbitrary: res t' evs rule: tools_loop.induct)
  case (1 exec tool_results t)
  then show ?case by simp
next
  case (2 exec tx rest tool_results t)
  then show ?case by simp
next
  case (3 exec i n inp rest tool_results t)
  obtain r tn where ex: "exec t n inp = (r, tn)" by (cases "exec t n inp") auto
  show ?case
  proof (cases r)
    case (Inr tool_result)
    obtain res2 tl evs2 where rec: "tools_loop exec rest
        (tool_results @ [\<lparr>tr_type = ''tool_result'', tr_tool_use_id = i, tr_content = tool_result\<rparr>]) tn
        = (res2, tl, evs2)"
      by (metis prod_cases3)
    from "3.IH"(2) [OF ex [symmetric] Inr rec] Inr "3.prems" ex rec show ?thesis
      by auto
  next
    case (Inl e)
    show ?thesis
    proof (cases "tool_transient e")
      case True
      with "3.prems" ex Inl show ?thesis by auto
    next
      case False
      obtain res2 tl evs2 where rec: "tools_loop exec rest
        (tool_results @ [\<lparr>tr_type = ''tool_result'', tr_tool_use_id = i,
             tr_content = ''Tool execution failed: '' @ exc_str e\<rparr>]) tn
        = (res2, tl, evs2)"
        by (metis prod_cases3)
      from "3.IH"(1) [OF ex [symmetric] Inl False rec] Inl "3.prems" ex rec False show ?thesis
        by auto
    qed
  qed
qed

lemma round_body_trace:
  "\<exists>tr. st_trace (flow_state (round_body G create exec sys td st)) = st_trace st @ tr
     \<and> count_events is_round_request tr = 1 \<and> count_events is_final_request tr = 0
     \<and> count_events is_batch tr \<le> 1
     \<and> count_events is_create tr \<le> Suc (count_events is_sleep tr)
     \<and> (never_raises create \<longrightarrow> count_events is_sleep tr = 0)"
proof -
  let ?p = "round_params G (st_messages st) sys td"
  obtain res cn evs where api: "api_call_with_retry create ?p 2 (st_client st) = (res, cn, evs)"
    by (metis prod_cases3)
  then have ev: "count_events is_round_request evs = 0 \<and> count_events is_final_request evs = 0
         \<and> count_events is_batch evs = 0
         \<and> count_events is_create evs \<le> Suc (count_events is_sleep evs)
         \<and> (never_raises create \<longrightarrow> count_events is_sleep evs = 0)"
    unfolding api_call_with_retry_def by (rule retry_loop_events)
  show ?thesis
  proof (cases res)
    case (Inl e)
    with api ev show ?thesis by (simp add: round_body_def Let_def)
  next
    case (Inr ro)
    show ?thesis
    proof (cases ro)
      case None
      with Inr api ev show ?thesis by (simp add: round_body_def Let_def)
    next
      case (Some resp)
      show ?thesis
      proof (cases "st_tool_manager st")
        case None
        with Some Inr api ev show ?thesis by (simp add: round_body_def Let_def)
      next
        case (Some t)
        note tm = this
        show ?thesis
        proof (cases "stop_reason resp = ''tool_use''")
          case False
          with tm \<open>ro = Some resp\<close> Inr api ev show ?thesis
            by (simp add: round_body_def Let_def)
        next
          case True
          obtain trs tn evs2 where tl: "execute_tools_for_round exec resp t = (trs, tn, evs2)"
            by (metis prod_cases3)
          then have ev2: "count_events is_round_request evs2 = 0 \<and> count_events is_final_request evs2 = 0
         \<and> count_events is_batch evs2 = 0 \<and> count_events is_create evs2 = 0
         \<and> count_events is_sleep evs2 = 0"
            unfolding execute_tools_for_round_def by (rule tools_loop_events)
          from True tm \<open>ro = Some resp\<close> Inr api ev tl ev2 show ?thesis
            by (cases trs; cases "the trs") (simp_all add: round_body_def Let_def)
        qed
      qed
    qed
  qed
qed

lemma round_loop_trace:
  assumes "round_loop G create exec sys td rounds st = (ex, st')"
  shows "\<exists>tr. st_trace st' = st_trace st @ tr
     \<and> count_events is_round_request tr \<le> length rounds
     \<and> count_events is_final_request tr = 0
     \<and> count_events is_batch tr \<le> count_events is_round_request tr
     \<and> count_events is_create tr \<le> count_events is_round_request tr + count_events is_sleep tr
     \<and> (never_raises create \<longrightarrow> count_events is_sleep tr = 0)"
  using assms
proof (induction rounds arbitrary: st)
  case Nil
  then show ?case by simp
next
  case (Cons r rounds)
  obtain tr where tr: "st_trace (flow_state (round_body G create exec sys td st)) = st_trace st @ tr"
     "count_events is_round_request tr = 1" "count_events is_final_request tr = 0"
     "count_events is_batch tr \<le> 1"
     "count_events is_create tr \<le> Suc (count_events is_sleep tr)"
     "never_raises create \<longrightarrow> count_events is_sleep tr = 0"
    using round_body_trace [of G create exec sys td st] by blast
  show ?case
  proof (cases "round_body G create exec sys td st")
    case (Continue s)
    with Cons.prems have "round_loop G create exec sys td rounds s = (ex, st')" by simp
    from Cons.IH [OF this] obtain transient_connection where transient_connection: "st_trace st' = st_trace s @ transient_connection"
     "count_events is_round_request transient_connection \<le> length rounds"
     "count_events is_final_request transient_connection = 0"
     "count_events is_batch transient_connection \<le> count_events is_round_request transient_connection"
     "count_events is_create transient_connection \<le> count_events is_round_request transient_connection + count_events is_sleep transient_connection"
     "never_raises create \<longrightarrow> count_events is_sleep transient_connection = 0" by blast
    from Continue tr(1) transient_connection(1) have "st_trace st' = st_trace st @ (tr @ transient_connection)" by simp
    with tr transient_connection show ?thesis by (intro exI [of _ "tr @ transient_connection"]) auto
  next
    case (Break s)
    with Cons.prems have "st' = s" by simp
    with Break tr show ?thesis by (intro exI [of _ tr]) auto
  next
    case (Raise e s)
    with Cons.prems have "st' = s" by simp
    with Raise tr show ?thesis by (intro exI [of _ tr]) auto
  qed
qed

lemma length_upto_rounds: "length [0..max_rounds - 1] = nat max_rounds"
  by simp

text \<open>
  C1. For a round budget \<open>max_rounds \<ge> 1\<close>, whatever the client and the tools answer, a
  run of \<open>generate_response\<close> makes at most \<open>max_rounds\<close> requests in the round loop and at
  most one final synthesis request, hence at most \<open>max_rounds + 1\<close> requests. Every call of
  the client is the first attempt of one of these requests or follows a back-off sleep; when
  the client answers every call with a response, it is called at most \<open>max_rounds + 1\<close>
  times.
\<close>

theorem generate_response_request_bound:
  assumes "1 \<le> max_rounds"
    and "generate_response G create exec c query history tool_defs tm max_rounds = (result, st)"
  shows "int (count_events is_round_request (st_trace st)) \<le> max_rounds
       \<and> count_events is_final_request (st_trace st) \<le> 1
       \<and> int (count_events is_round_request (st_trace st)
              + count_events is_final_request (st_trace st)) \<le> max_rounds + 1
       \<and> count_events is_create (st_trace st)
           \<le> count_events is_round_request (st_trace st)
             + count_events is_final_request (st_trace st)
             + count_events is_sleep (st_trace st)
       \<and> (never_raises create \<longrightarrow> int (count_events is_create (st_trace st)) \<le> max_rounds + 1)"
proof -
  let ?sys = "system_content_of G history"
  let ?init = "\<lparr>st_messages = [\<lparr>role = ''user'', msg_content = Text query\<rparr>],
                 st_response = None, st_client = c, st_tool_manager = tm,
                 st_trace = []\<rparr>"
  obtain ex s where loop: "round_loop G create exec ?sys tool_defs [0..max_rounds - 1] ?init = (ex, s)"
    by (cases "round_loop G create exec ?sys tool_defs [0..max_rounds - 1] ?init") auto
  from round_loop_trace [OF loop] length_upto_rounds [of max_rounds] assms(1)
  have s: "int (count_events is_round_request (st_trace s)) \<le> max_rounds"
     "count_events is_final_request (st_trace s) = 0"
     "count_events is_create (st_trace s)
        \<le> count_events is_round_request (st_trace s) + count_events is_sleep (st_trace s)"
     "never_raises create \<longrightarrow> count_events is_sleep (st_trace s) = 0"
    by auto
  let ?fp = "final_params G (st_messages s) ?sys"
  obtain res cn evs where api: "api_call_with_retry create ?fp 2 (st_client s) = (res, cn, evs)"
    by (metis prod_cases3)
  then have ev: "count_events is_round_request evs = 0 \<and> count_events is_final_request evs = 0
         \<and> count_events is_batch evs = 0
         \<and> count_events is_create evs \<le> Suc (count_events is_sleep evs)
         \<and> (never_raises create \<longrightarrow> count_events is_sleep evs = 0)"
    unfolding api_call_with_retry_def by (rule retry_loop_events)
  from assms(2) loop api
  have "st_trace st = st_trace s \<or> st_trace st = st_trace s @ FinalRequest ?fp # evs"
    by (auto simp: generate_response_def Let_def
        split: option.splits list.splits if_splits sum.splits)
  then show ?thesis
  proof
    assume "st_trace st = st_trace s"
    with s show ?thesis by auto
  next
    assume "st_trace st = st_trace s @ FinalRequest ?fp # evs"
    with s ev show ?thesis by auto
  qed
qed

lemma never_raises_always_tool_use: "never_raises always_tool_use"
  by (simp add: never_raises_def always_tool_use_def)




theorem generate_response_request_bound_witness:
  "(1::int) \<le> 2 \<and> never_raises always_tool_use
   \<and> count_events is_round_request (st_trace (snd always_run)) = 2
   \<and> count_events is_final_request (st_trace (snd always_run)) = 1
   \<and> count_events is_create (st_trace (snd always_run)) = 3"
proof -
  have a: "generate_response example_generator always_tool_use constant_exec 0
            ''Test max rounds'' None None (Some ()) 2 = (fst always_run, snd always_run)"
    by (simp add: always_run_def)
  have b: "count_events is_round_request (st_trace (snd always_run)) = 2"
    unfolding always_run_def by code_simp
  have c: "count_events is_final_request (st_trace (snd always_run)) = 1"
    unfolding always_run_def by code_simp
  have d: "count_events is_create (st_trace (snd always_run)) = 3"
    unfolding always_run_def by code_simp
  from generate_response_request_bound [OF _ a] never_raises_always_tool_use b c d
  show ?thesis by simp
qed

section \<open>Two tool rounds and the final synthesis\<close>

lemma created_append [simp]: "created (tr @ tr') = created tr @ created tr'"
  by (induction tr rule: created.induct) auto

lemma api_call_success:
  "create c p = (Inr r, cn) \<Longrightarrow> api_call_with_retry create p 2 c = (Inr (Some r), cn, [Create p])"
  by (simp add: api_call_with_retry_def upto_0_2)













section \<open>A transient tool error in the first round\<close>

lemma tools_loop_transient_none:
  assumes "tools_loop exec blocks acc t = (res, t', evs)"
    and "ExecuteTool n inp (Inl e) \<in> set evs" and "tool_transient e"
  shows "res = None"
  using assms
proof (induction exec blocks acc t arbitrary: res t' evs rule: tools_loop.induct)
  case (1 exec tool_results t)
  then show ?case by simp
next
  case (2 exec tx rest tool_results t)
  then show ?case by simp
next
  case (3 exec i m minp rest tool_results t)
  obtain r tn where ex: "exec t m minp = (r, tn)" by (cases "exec t m minp") auto
  show ?case
  proof (cases r)
    case (Inr tool_result)
    obtain res2 tl evs2 where rec: "tools_loop exec rest
        (tool_results @ [\<lparr>tr_type = ''tool_result'', tr_tool_use_id = i, tr_content = tool_result\<rparr>]) tn
        = (res2, tl, evs2)"
      by (metis prod_cases3)
    from "3.prems" ex Inr rec have "res = res2" "ExecuteTool n inp (Inl e) \<in> set evs2" by auto
    with "3.IH"(2) [OF ex [symmetric] Inr rec _ "3.prems"(3)] show ?thesis by simp
  next
    case (Inl e')
    show ?thesis
    proof (cases "tool_transient e'")
      case True
      with "3.prems" ex Inl show ?thesis by auto
    next
      case False
      obtain res2 tl evs2 where rec: "tools_loop exec rest
        (tool_results @ [\<lparr>tr_type = ''tool_result'', tr_tool_use_id = i,
             tr_content = ''Tool execution failed: '' @ exc_str e'\<rparr>]) tn
        = (res2, tl, evs2)"
        by (metis prod_cases3)
      from "3.prems" ex Inl rec False have "res = res2" "ExecuteTool n inp (Inl e) \<in> set evs2"
        by auto
      with "3.IH"(1) [OF ex [symmetric] Inl False rec _ "3.prems"(3)] show ?thesis by simp
    qed
  qed
qed

text \<open>
  C3, as the code has it. If a tool raises a transient error in round 1, the run makes no
  further request: the tool results are dropped, the message list ends with the assistant
  turn, and \<open>generate_response\<close> returns \<open>content[0].text\<close> of the round-1 response.
  The calls of the client are the one of round 1; there is no final synthesis request.
\<close>

theorem transient_tool_error_ends_run:
  assumes "1 \<le> max_rounds"
    and "create c (round_params G [\<lparr>role = ''user'', msg_content = Text query\<rparr>]
                     (system_content_of G history) tool_defs) = (Inr ra, cb)"
    and "stop_reason ra = ''tool_use''"
    and "execute_tools_for_round exec ra t = (res, t', evs)"
    and "ExecuteTool n inp (Inl e) \<in> set evs" and "tool_transient e"
  shows "generate_response G create exec c query history tool_defs (Some t) max_rounds
           = (first_text (content ra),
              \<lparr>st_messages = [\<lparr>role = ''user'', msg_content = Text query\<rparr>,
                              \<lparr>role = ''assistant'', msg_content = Blocks (content ra)\<rparr>],
               st_response = Some ra, st_client = cb, st_tool_manager = Some t',
               st_trace =
                 RoundRequest (round_params G [\<lparr>role = ''user'', msg_content = Text query\<rparr>]
                                 (system_content_of G history) tool_defs)
                 # Create (round_params G [\<lparr>role = ''user'', msg_content = Text query\<rparr>]
                                 (system_content_of G history) tool_defs)
                 # Batch # evs\<rparr>)
         \<and> count_events is_create evs = 0 \<and> count_events is_final_request evs = 0
         \<and> count_events is_round_request evs = 0 \<and> count_events is_batch evs = 0"
proof -
  let ?sys = "system_content_of G history"
  let ?p = "round_params G [\<lparr>role = ''user'', msg_content = Text query\<rparr>] ?sys tool_defs"
  let ?init = "\<lparr>st_messages = [\<lparr>role = ''user'', msg_content = Text query\<rparr>],
                 st_response = None, st_client = c, st_tool_manager = Some t,
                 st_trace = []\<rparr>"
  from assms(4,5,6) have none: "res = None"
    unfolding execute_tools_for_round_def by (rule tools_loop_transient_none)
  from assms(4) have ev: "count_events is_round_request evs = 0 \<and> count_events is_final_request evs = 0
         \<and> count_events is_batch evs = 0 \<and> count_events is_create evs = 0
         \<and> count_events is_sleep evs = 0"
    unfolding execute_tools_for_round_def by (rule tools_loop_events)
  have api: "api_call_with_retry create ?p 2 c = (Inr (Some ra), cb, [Create ?p])"
    using assms(2) by (rule api_call_success [where create = create])
  from assms(1) have up: "[0..max_rounds - 1] = 0 # [1..max_rounds - 1]"
    by (simp add: upto_rec1)
  have body: "round_body G create exec ?sys tool_defs ?init
     = Break \<lparr>st_messages = [\<lparr>role = ''user'', msg_content = Text query\<rparr>,
                              \<lparr>role = ''assistant'', msg_content = Blocks (content ra)\<rparr>],
               st_response = Some ra, st_client = cb, st_tool_manager = Some t',
               st_trace = RoundRequest ?p # Create ?p # Batch # evs\<rparr>"
    using api assms(3,4) none by (simp add: round_body_def Let_def)
  have "generate_response G create exec c query history tool_defs (Some t) max_rounds
           = (first_text (content ra),
              \<lparr>st_messages = [\<lparr>role = ''user'', msg_content = Text query\<rparr>,
                              \<lparr>role = ''assistant'', msg_content = Blocks (content ra)\<rparr>],
               st_response = Some ra, st_client = cb, st_tool_manager = Some t',
               st_trace = RoundRequest ?p # Create ?p # Batch # evs\<rparr>)"
    using body up by (simp add: generate_response_def Let_def)
  with ev show ?thesis by simp
qed

theorem transient_tool_error_ends_run_witness:
  "(1::int) \<le> 3 \<and> tool_transient (Exception ''Network unreachable'')
   \<and> fst network_run = Inr ''Let me search the course materials.''
   \<and> st_client (snd network_run) = [Inr (text_response ''Synthesized answer'')]
   \<and> count_events is_create (st_trace (snd network_run)) = 1"
proof -
  have tr: "tool_transient (Exception ''Network unreachable'')" by code_simp
  have ex: "execute_tools_for_round scripted_exec narrated_tool_use_response
              [Inl (Exception ''Network unreachable'')]
            = (None, [],
               [ExecuteTool ''search_course_content'' [(''query'', PStr ''test'')]
                  (Inl (Exception ''Network unreachable''))])"
    using tr by (simp add: execute_tools_for_round_def narrated_tool_use_response_def
        scripted_exec_def)
  have cr: "scripted_create
              [Inr narrated_tool_use_response, Inr (text_response ''Synthesized answer'')]
              (round_params example_generator
                 [\<lparr>role = ''user'', msg_content = Text ''What is in lesson 1?''\<rparr>]
                 (system_content_of example_generator None) None)
            = (Inr narrated_tool_use_response, [Inr (text_response ''Synthesized answer'')])"
    by (simp add: scripted_create_def)
  have sr: "stop_reason narrated_tool_use_response = ''tool_use''"
    by (simp add: narrated_tool_use_response_def)
  from transient_tool_error_ends_run [where create = scripted_create and exec = scripted_exec
      and max_rounds = 3, OF _ cr sr ex _ tr]
  have "generate_response example_generator scripted_create scripted_exec
     [Inr narrated_tool_use_response, Inr (text_response ''Synthesized answer'')]
     ''What is in lesson 1?'' None None (Some [Inl (Exception ''Network unreachable'')]) 3
    = (first_text (content narrated_tool_use_response),
      \<lparr>st_messages = [\<lparr>role = ''user'', msg_content = Text ''What is in lesson 1?''\<rparr>,
                      \<lparr>role = ''assistant'',
                       msg_content = Blocks (content narrated_tool_use_response)\<rparr>],
       st_response = Some narrated_tool_use_response,
       st_client = [Inr (text_response ''Synthesized answer'')],
       st_tool_manager = Some [],
       st_trace =
         [RoundRequest (round_params example_generator
                 [\<lparr>role = ''user'', msg_content = Text ''What is in lesson 1?''\<rparr>]
                 (system_content_of example_generator None) None),
          Create (round_params example_generator
                 [\<lparr>role = ''user'', msg_content = Text ''What is in lesson 1?''\<rparr>]
                 (system_content_of example_generator None) None),
          Batch,
          ExecuteTool ''search_course_content'' [(''query'', PStr ''test'')]
                  (Inl (Exception ''Network unreachable''))]\<rparr>)"
    by simp
  then show ?thesis using tr unfolding network_run_def
    by (simp add: narrated_tool_use_response_def)
qed

text \<open>
  C3, as stated, fails. The tool of round 1 raises \<open>Rate limit exceeded\<close>; the client has
  a second response ready, which a synthesis request would return. The run returns the
  text that precedes the \<open>tool_use\<close> block of the round-1 response, makes no final request,
  and leaves the second response unread.
\<close>

theorem transient_tool_error_no_synthesis:
  "tool_transient (Exception ''Rate limit exceeded'')
   \<and> fst transient_run = Inr ''Let me search the course materials.''
   \<and> count_events is_final_request (st_trace (snd transient_run)) = 0
   \<and> count_events is_create (st_trace (snd transient_run)) = 1
   \<and> st_client (snd transient_run) = [Inr (text_response ''Synthesized answer'')]"
  unfolding transient_run_def by code_simp



section \<open>The shape of the round state\<close>

lemma requests_wf_simps [simp]:
  "requests_wf q []"
  "requests_wf q (tr @ tr') = (requests_wf q tr \<and> requests_wf q tr')"
  "requests_wf q (RoundRequest p # tr) = (wf_messages q (p_messages p) \<and> requests_wf q tr)"
  "requests_wf q (FinalRequest p # tr) = (wf_messages q (p_messages p) \<and> requests_wf q tr)"
  "requests_wf q (Create p # tr) = (wf_messages q (p_messages p) \<and> requests_wf q tr)"
  "requests_wf q (Sleep d # tr) = requests_wf q tr"
  "requests_wf q (Batch # tr) = requests_wf q tr"
  "requests_wf q (ExecuteTool n inp r # tr) = requests_wf q tr"
  by (simp_all add: requests_wf_def)

lemma alternates_snoc:
  "alternates u (ms @ [m]) =
     (alternates u ms \<and> role m = (if even (length ms) = u then ''user'' else ''assistant''))"
  by (induction ms arbitrary: u) auto

lemma results_follow_snoc:
  "ms \<noteq> [] \<Longrightarrow> results_follow (ms @ [m]) = (results_follow ms \<and> answers (last ms) m)"
  by (induction ms rule: results_follow.induct) auto

lemma retry_loop_requests_wf:
  assumes "retry_loop create p mr attempts c = (res, c', evs)"
    and "wf_messages q (p_messages p)"
  shows "requests_wf q evs"
  using assms
proof (induction attempts arbitrary: c res c' evs)
  case Nil
  then show ?case by simp
next
  case (Cons a attempts)
  obtain r cn where cr: "create c p = (r, cn)" by (cases "create c p") auto
  obtain res2 cl evs2 where rec: "retry_loop create p mr attempts cn = (res2, cl, evs2)"
    by (metis prod_cases3)
  from Cons.IH [OF rec Cons.prems(2)] Cons.prems cr rec show ?case
    by (cases r) (auto split: if_splits)
qed

lemma tools_loop_requests_wf:
  assumes "tools_loop exec blocks acc t = (res, t', evs)"
  shows "requests_wf q evs"
  using assms
proof (induction exec blocks acc t arbitrary: res t' evs rule: tools_loop.induct)
  case (1 exec tool_results t)
  then show ?case by simp
next
  case (2 exec tx rest tool_results t)
  then show ?case by simp
next
  case (3 exec i n inp rest tool_results t)
  obtain r tn where ex: "exec t n inp = (r, tn)" by (cases "exec t n inp") auto
  show ?case
  proof (cases r)
    case (Inr tool_result)
    obtain res2 tl evs2 where rec: "tools_loop exec rest
        (tool_results @ [\<lparr>tr_type = ''tool_result'', tr_tool_use_id = i, tr_content = tool_result\<rparr>]) tn
        = (res2, tl, evs2)"
      by (metis prod_cases3)
    from "3.IH"(2) [OF ex [symmetric] Inr rec] Inr "3.prems" ex rec show ?thesis
      by auto
  next
    case (Inl e)
    show ?thesis
    proof (cases "tool_transient e")
      case True
      with "3.prems" ex Inl show ?thesis by auto
    next
      case False
      obtain res2 tl evs2 where rec: "tools_loop exec rest
        (tool_results @ [\<lparr>tr_type = ''tool_result'', tr_tool_use_id = i,
             tr_content = ''Tool execution failed: '' @ exc_str e\<rparr>]) tn
        = (res2, tl, evs2)"
        by (metis prod_cases3)
      from "3.IH"(1) [OF ex [symmetric] Inl False rec] Inl "3.prems" ex rec False show ?thesis
        by auto
    qed
  qed
qed

lemma tools_loop_results:
  assumes "tools_loop exec blocks acc t = (Some rs, t', evs)"
    and "list_all (\<lambda>r. tr_type r = ''tool_result'') acc"
  shows "map tr_tool_use_id rs = map tr_tool_use_id acc @ tool_use_ids blocks
         \<and> list_all (\<lambda>r. tr_type r = ''tool_result'') rs"
  using assms
proof (induction exec blocks acc t arbitrary: rs t' evs rule: tools_loop.induct)
  case (1 exec tool_results t)
  then show ?case by (auto split: if_splits)
next
  case (2 exec tx rest tool_results t)
  then show ?case by simp
next
  case (3 exec i n inp rest tool_results t)
  obtain r tn where ex: "exec t n inp = (r, tn)" by (cases "exec t n inp") auto
  show ?case
  proof (cases r)
    case (Inr tool_result)
    obtain res2 tl evs2 where rec: "tools_loop exec rest
        (tool_results @ [\<lparr>tr_type = ''tool_result'', tr_tool_use_id = i, tr_content = tool_result\<rparr>]) tn
        = (res2, tl, evs2)"
      by (metis prod_cases3)
    with "3.prems" ex Inr have "res2 = Some rs" by simp
    with "3.IH"(2) [OF ex [symmetric] Inr, of rs tl evs2] rec "3.prems"(2) show ?thesis
      by simp
  next
    case (Inl e)
    show ?thesis
    proof (cases "tool_transient e")
      case True
      with "3.prems" ex Inl show ?thesis by auto
    next
      case False
      obtain res2 tl evs2 where rec: "tools_loop exec rest
        (tool_results @ [\<lparr>tr_type = ''tool_result'', tr_tool_use_id = i,
             tr_content = ''Tool execution failed: '' @ exc_str e\<rparr>]) tn
        = (res2, tl, evs2)"
        by (metis prod_cases3)
      with "3.prems" ex Inl False have "res2 = Some rs" by simp
      with "3.IH"(1) [OF ex [symmetric] Inl False, of rs tl evs2] rec "3.prems"(2) show ?thesis
        by simp
    qed
  qed
qed

lemma wf_snoc_assistant:
  assumes "wf_messages q ms" and "odd (length ms)"
  shows "wf_messages q (ms @ [\<lparr>role = ''assistant'', msg_content = Blocks bs\<rparr>])"
  using assms
  by (auto simp: wf_messages_def alternates_snoc results_follow_snoc answers_def)

lemma wf_snoc_results:
  assumes "wf_messages q ms" and "odd (length ms)"
    and "map tr_tool_use_id rs = tool_use_ids bs"
    and "list_all (\<lambda>r. tr_type r = ''tool_result'') rs"
  shows "wf_messages q (ms @ [\<lparr>role = ''assistant'', msg_content = Blocks bs\<rparr>,
                              \<lparr>role = ''user'', msg_content = ToolResults rs\<rparr>])"
proof -
  let ?a = "\<lparr>role = ''assistant'', msg_content = Blocks bs\<rparr>"
  let ?u = "\<lparr>role = ''user'', msg_content = ToolResults rs\<rparr>"
  from wf_snoc_assistant [OF assms(1,2)] have a: "wf_messages q (ms @ [?a])" .
  have "wf_messages q ((ms @ [?a]) @ [?u])"
    using a assms(2,3,4)
    by (auto simp: wf_messages_def alternates_snoc results_follow_snoc answers_def
        simp del: append_assoc)
  then show ?thesis by simp
qed

lemma alternates_take: "alternates u ms \<Longrightarrow> alternates u (take n ms)"
  by (induction ms arbitrary: u n) (auto simp: take_Cons split: nat.splits)

lemma results_follow_take: "results_follow ms \<Longrightarrow> results_follow (take n ms)"
proof (induction ms arbitrary: n rule: results_follow.induct)
  case (1 a m ms)
  show ?case
  proof (cases n)
    case 0
    then show ?thesis by simp
  next
    case (Suc k)
    from "1.IH" [of k] "1.prems" have "results_follow (take k (m # ms))" by simp
    with Suc "1.prems" show ?thesis by (cases k) auto
  qed
qed (auto simp: take_Cons split: nat.splits)

lemma wf_messages_take:
  "wf_messages q ms \<Longrightarrow> 0 < n \<Longrightarrow> wf_messages q (take n ms)"
  by (cases n) (auto simp: wf_messages_def alternates_take results_follow_take neq_Nil_conv)

lemma round_body_wf:
  assumes "wf_messages q (st_messages st)" and "odd (length (st_messages st))"
    and "requests_wf q (st_trace st)"
  shows "wf_messages q (st_messages (flow_state (round_body G create exec sys td st)))
         \<and> requests_wf q (st_trace (flow_state (round_body G create exec sys td st)))
         \<and> (\<forall>s. round_body G create exec sys td st = Continue s
               \<longrightarrow> odd (length (st_messages s)))"
proof -
  let ?p = "round_params G (st_messages st) sys td"
  have pm: "p_messages ?p = st_messages st"
    by (simp add: round_params_def split: option.splits list.splits)
  obtain res cn evs where api: "api_call_with_retry create ?p 2 (st_client st) = (res, cn, evs)"
    by (metis prod_cases3)
  then have ev: "requests_wf q evs"
    unfolding api_call_with_retry_def using assms(1) pm
    by (intro retry_loop_requests_wf [where create = create and p = "?p"]) simp_all
  show ?thesis
  proof (cases res)
    case (Inl e)
    with api ev assms pm show ?thesis by (simp add: round_body_def Let_def)
  next
    case (Inr ro)
    show ?thesis
    proof (cases ro)
      case None
      with Inr api ev assms pm show ?thesis by (simp add: round_body_def Let_def)
    next
      case (Some resp)
      note wa = wf_snoc_assistant [OF assms(1,2), of "content resp"]
      show ?thesis
      proof (cases "st_tool_manager st")
        case None
        with Some Inr api ev assms pm wa show ?thesis by (simp add: round_body_def Let_def)
      next
        case (Some t)
        note tm = this
        show ?thesis
        proof (cases "stop_reason resp = ''tool_use''")
          case False
          with tm \<open>ro = Some resp\<close> Inr api ev assms pm wa show ?thesis
            by (simp add: round_body_def Let_def)
        next
          case True
          obtain trs tn evs2 where tl: "tools_loop exec (content resp) [] t = (trs, tn, evs2)"
            by (metis prod_cases3)
          then have ev2: "requests_wf q evs2" by (rule tools_loop_requests_wf)
          show ?thesis
          proof (cases trs)
            case None
            with True tm \<open>ro = Some resp\<close> Inr api ev assms pm wa tl ev2 show ?thesis
              by (simp add: round_body_def Let_def execute_tools_for_round_def)
          next
            case (Some rs)
            with tl have tls: "tools_loop exec (content resp) [] t = (Some rs, tn, evs2)"
              by simp
            have "map tr_tool_use_id rs = map tr_tool_use_id [] @ tool_use_ids (content resp)
                \<and> list_all (\<lambda>r. tr_type r = ''tool_result'') rs"
              using tools_loop_results [OF tls] by simp
            then have wr: "wf_messages q (st_messages st
                @ [\<lparr>role = ''assistant'', msg_content = Blocks (content resp)\<rparr>,
                   \<lparr>role = ''user'', msg_content = ToolResults rs\<rparr>])"
              using wf_snoc_results [OF assms(1,2), of rs "content resp"] by simp
            from Some True tm \<open>ro = Some resp\<close> Inr api ev assms pm wa tl ev2 wr show ?thesis
              by (cases rs) (simp_all add: round_body_def Let_def execute_tools_for_round_def)
          qed
        qed
      qed
    qed
  qed
qed

lemma round_loop_wf:
  assumes "round_loop G create exec sys td rounds st = (ex, s)"
    and "wf_messages q (st_messages st)" and "odd (length (st_messages st))"
    and "requests_wf q (st_trace st)"
  shows "wf_messages q (st_messages s) \<and> requests_wf q (st_trace s)"
  using assms
proof (induction rounds arbitrary: st)
  case Nil
  then show ?case by simp
next
  case (Cons r rounds)
  note body = round_body_wf [OF Cons.prems(2,3,4), of G create exec sys td]
  show ?case
  proof (cases "round_body G create exec sys td st")
    case (Continue sn)
    with Cons.prems(1) have "round_loop G create exec sys td rounds sn = (ex, s)" by simp
    from Cons.IH [OF this] body Continue show ?thesis by simp
  next
    case (Break sn)
    with Cons.prems(1) body show ?thesis by auto
  next
    case (Raise e sn)
    with Cons.prems(1) body show ?thesis by auto
  qed
qed

text \<open>
  C4. At the end of every run of \<open>generate_response\<close>, whether it returns or raises, the
  message list begins with the user turn that holds the query, its roles alternate
  \<open>user\<close>, \<open>assistant\<close>, \<open>user\<close>, ..., and every turn that holds tool results has the role
  \<open>user\<close> and answers the assistant turn just before it with one \<open>tool_result\<close> entry for
  each of its \<open>tool_use\<close> blocks, in order and with the same identifiers. The same holds
  for every non-empty prefix of the final list, which the list has been at some earlier
  moment, and for the message list of every request made during the run.
\<close>

theorem round_state_well_formed:
  assumes "generate_response G create exec c query history tool_defs tm max_rounds = (result, st)"
  shows "wf_messages query (st_messages st)
         \<and> (\<forall>n>0. wf_messages query (take n (st_messages st)))
         \<and> requests_wf query (st_trace st)"
proof -
  let ?sys = "system_content_of G history"
  let ?init = "\<lparr>st_messages = [\<lparr>role = ''user'', msg_content = Text query\<rparr>],
                 st_response = None, st_client = c, st_tool_manager = tm,
                 st_trace = []\<rparr>"
  obtain ex s where loop: "round_loop G create exec ?sys tool_defs [0..max_rounds - 1] ?init = (ex, s)"
    by (cases "round_loop G create exec ?sys tool_defs [0..max_rounds - 1] ?init") auto
  have "wf_messages query (st_messages ?init)" by (simp add: wf_messages_def)
  with round_loop_wf [OF loop, of query]
  have s: "wf_messages query (st_messages s)" "requests_wf query (st_trace s)" by simp_all
  let ?fp = "final_params G (st_messages s) ?sys"
  have pm: "p_messages ?fp = st_messages s" by (simp add: final_params_def)
  obtain res cn evs where api: "api_call_with_retry create ?fp 2 (st_client s) = (res, cn, evs)"
    by (metis prod_cases3)
  then have ev: "requests_wf query evs"
    unfolding api_call_with_retry_def using s(1) pm
    by (intro retry_loop_requests_wf [where create = create and p = "?fp"]) simp_all
  from assms loop api
  have "st_messages st = st_messages s
        \<and> (st_trace st = st_trace s \<or> st_trace st = st_trace s @ FinalRequest ?fp # evs)"
    by (auto simp: generate_response_def Let_def
        split: option.splits list.splits if_splits sum.splits)
  with s ev pm have "wf_messages query (st_messages st) \<and> requests_wf query (st_trace st)"
    by auto
  then show ?thesis using wf_messages_take by blast
qed

theorem round_state_well_formed_witness:
  "wf_messages ''Tell me about lesson 3'' (st_messages (snd two_round_run))
   \<and> length (st_messages (snd two_round_run)) = 5
   \<and> map role (st_messages (snd two_round_run))
       = [''user'', ''assistant'', ''user'', ''assistant'', ''user'']
   \<and> requests_wf ''Tell me about lesson 3'' (st_trace (snd two_round_run))"
proof -
  have a: "generate_response example_generator scripted_create constant_exec
     [Inr (tool_use_response ''tool_1''), Inr (tool_use_response ''tool_2''),
      Inr (text_response ''Here is the answer'')]
     ''Tell me about lesson 3'' None (Some [get_tool_definition (CourseSearchTool [])])
     (Some ()) 2 = (fst two_round_run, snd two_round_run)"
    by (simp add: two_round_run_def)
  have b: "map role (st_messages (snd two_round_run))
       = [''user'', ''assistant'', ''user'', ''assistant'', ''user'']"
    unfolding two_round_run_def by code_simp
  have c: "length (st_messages (snd two_round_run)) = 5"
    unfolding two_round_run_def by code_simp
  from round_state_well_formed [OF a] b c show ?thesis by simp
qed


end
